theory Spec2Isabelle
  imports Complex_Main
begin

section \<open>The notebook as a program\<close>

text \<open>
  The repository is one Jupyter notebook, \<^verbatim>\<open>examples/regression_tutorial.ipynb\<close>: 37 cells,
  22 of them code. Its program text is embedded as data, cell by cell and statement by
  statement, in the abstract syntax of the Python fragment it is written in; the
  statement forms the notebook does not use (\<open>While\<close>, \<open>IfElse\<close>, \<open>Try\<close>, \<open>With\<close>,
  \<open>Raise\<close>) are part of the syntax so that their absence is a fact about the notebook
  and not about the type. A float literal keeps its source text.
\<close>

datatype binop = Add | Sub | Mult

datatype expr =
    Name string
  | IntLit int
  | FloatLit string
  | StrLit string
  | Attr expr string
  | Call expr "expr list" "(string \<times> expr) list"
  | BinOp expr binop expr
  | Neg expr
  | ListE "expr list"
  | TupleE "expr list"
  | DictE "(expr \<times> expr) list"

datatype stmt =
    Import string "string option"
  | ImportFrom string string
  | Magic string
  | Assign expr expr
  | ExprStmt expr
  | For expr expr "stmt list"
  | While expr "stmt list"
  | IfElse expr "stmt list" "stmt list"
  | FunctionDef string "string list" "stmt list"
  | Try "stmt list" "(expr option \<times> stmt list) list" "stmt list" "stmt list"
  | With expr "stmt list"
  | Raise expr

datatype cell = Markdown | Code "stmt list"

subsection \<open>The code cells\<close>

definition cell_0 :: "stmt list" where
  "cell_0 =
    [Import ''sys'' None,
     ExprStmt (Call (Attr (Attr (Name ''sys'') ''path'') ''append'') [StrLit ''..''] [])]"

definition cell_1 :: "stmt list" where
  "cell_1 =
    [ImportFrom ''functools'' ''partial'',
     Import ''matplotlib.pyplot'' (Some ''plt''),
     Magic ''matplotlib inline'',
     Import ''torch'' None,
     Import ''torch.nn'' (Some ''nn''),
     Import ''torch.utils.data'' (Some ''data''),
     Import ''pyro'' None,
     Import ''pyro.distributions'' (Some ''dist''),
     Import ''tyxe'' None,
     ExprStmt (Call (Attr (Name ''pyro'') ''set_rng_seed'') [IntLit 42] [])]"

definition cell_3 :: "stmt list" where
  "cell_3 =
    [Assign (Name ''x1'')
       (BinOp (BinOp (Call (Attr (Name ''torch'') ''rand'') [IntLit 50, IntLit 1] [])
                 Mult (FloatLit ''0.3'')) Sub (IntLit 1)),
     Assign (Name ''x2'')
       (BinOp (BinOp (Call (Attr (Name ''torch'') ''rand'') [IntLit 50, IntLit 1] [])
                 Mult (FloatLit ''0.5'')) Add (FloatLit ''0.5'')),
     Assign (Name ''x'')
       (Call (Attr (Name ''torch'') ''cat'') [ListE [Name ''x1'', Name ''x2'']] []),
     Assign (Name ''y'')
       (BinOp
          (Call (Attr (Call (Attr (Call (Attr (Name ''x'') ''mul'') [IntLit 4] []) ''add'')
          [FloatLit ''0.8''] []) ''cos'') [] [])
          Add
          (BinOp (FloatLit ''0.1'') Mult
             (Call (Attr (Name ''torch'') ''randn_like'') [Name ''x''] []))),
     Assign (Name ''x_test'')
       (Call (Attr (Call (Attr (Name ''torch'') ''linspace'')
                      [Neg (IntLit 2), IntLit 2, IntLit 401] []) ''unsqueeze'')
          [Neg (IntLit 1)] []),
     Assign (Name ''y_test'')
       (Call (Attr (Call (Attr (Call (Attr (Name ''x_test'') ''mul'') [IntLit 4] []) ''add'')
          [FloatLit ''0.8''] []) ''cos'') [] [])]"

definition cell_4 :: "stmt list" where
  "cell_4 =
    [Assign (Name ''dataset'')
       (Call (Attr (Name ''data'') ''TensorDataset'') [Name ''x'', Name ''y''] []),
     Assign (Name ''loader'')
       (Call (Attr (Name ''data'') ''DataLoader'') [Name ''dataset'']
          [(''batch_size'', Call (Name ''len'') [Name ''x''] [])])]"

definition cell_5 :: "stmt list" where
  "cell_5 =
    [ExprStmt (Call (Attr (Name ''plt'') ''scatter'')
       [Call (Attr (Name ''x'') ''squeeze'') [] [], Name ''y''] []),
     ExprStmt (Call (Attr (Name ''plt'') ''plot'')
       [Call (Attr (Name ''x_test'') ''squeeze'') [] [], Name ''y_test''] [])]"

text \<open>The loop of cell 8: the baseline fit, written out in the notebook.\<close>

definition training_loop :: stmt where
  "training_loop =
     For (Name ''_'') (Call (Name ''range'') [IntLit 10000] [])
       [ExprStmt (Call (Attr (Name ''optim'') ''zero_grad'') [] []),
        ExprStmt
          (Call (Attr (Call (Attr (Call (Attr (Call (Attr (Call (Name ''net'') [Name ''x''] [])
             ''sub'') [Name ''y''] []) ''pow'') [IntLit 2] []) ''mean'') [] []) ''backward'')
             [] []),
        ExprStmt (Call (Attr (Name ''optim'') ''step'') [] [])]"

definition cell_8 :: "stmt list" where
  "cell_8 =
    [Assign (Name ''net'')
       (Call (Attr (Name ''nn'') ''Sequential'')
          [Call (Attr (Name ''nn'') ''Linear'') [IntLit 1, IntLit 50] [],
           Call (Attr (Name ''nn'') ''Tanh'') [] [],
           Call (Attr (Name ''nn'') ''Linear'') [IntLit 50, IntLit 1] []] []),
     Assign (Name ''optim'')
       (Call (Attr (Attr (Name ''torch'') ''optim'') ''Adam'')
          [Call (Attr (Name ''net'') ''parameters'') [] [], FloatLit ''1e-4''] []),
     training_loop]"

definition plot_truth :: stmt where
  "plot_truth =
     ExprStmt (Call (Attr (Name ''plt'') ''plot'') [Name ''x_test'', Name ''y_test'']
       [(''color'', StrLit ''black'')])"

definition scatter_data :: stmt where
  "scatter_data =
     ExprStmt (Call (Attr (Name ''plt'') ''scatter'') [Name ''x'', Name ''y'']
       [(''color'', StrLit ''black'')])"

definition set_ylim :: stmt where
  "set_ylim = ExprStmt (Call (Attr (Name ''plt'') ''ylim'') [Neg (IntLit 2), IntLit 2] [])"

definition cell_9 :: "stmt list" where
  "cell_9 =
    [scatter_data,
     plot_truth,
     ExprStmt (Call (Attr (Name ''plt'') ''plot'')
       [Name ''x_test'',
        Call (Attr (Call (Name ''net'') [Name ''x_test''] []) ''detach'') [] []]
       [(''color'', StrLit ''blue'')]),
     set_ylim]"

definition cell_12 :: "stmt list" where
  "cell_12 = [Assign (Name ''net'')
       (Call (Attr (Name ''nn'') ''Sequential'')
          [Call (Attr (Name ''nn'') ''Linear'') [IntLit 1, IntLit 50] [],
           Call (Attr (Name ''nn'') ''Tanh'') [] [],
           Call (Attr (Name ''nn'') ''Linear'') [IntLit 50, IntLit 1] []] [])]"

definition cell_14 :: "stmt list" where
  "cell_14 =
    [Assign (Name ''prior'')
       (Call (Attr (Attr (Name ''tyxe'') ''priors'') ''IIDPrior'')
          [Call (Attr (Name ''dist'') ''Normal'') [IntLit 0, IntLit 1] []] [])]"

definition cell_16 :: "stmt list" where
  "cell_16 =
    [Assign (Name ''obs_model'')
       (Call (Attr (Attr (Name ''tyxe'') ''likelihoods'') ''HomoskedasticGaussian'')
          [Call (Name ''len'') [Name ''x''] []] [(''scale'', FloatLit ''0.1'')])]"

definition cell_18 :: "stmt list" where
  "cell_18 =
    [Assign (Name ''guide_builder'')
       (Call (Name ''partial'') [Attr (Attr (Name ''tyxe'') ''guides'') ''AutoNormal'']
          [(''init_scale'', FloatLit ''0.01'')])]"

definition cell_20 :: "stmt list" where
  "cell_20 =
    [Assign (Name ''bnn'')
       (Call (Attr (Name ''tyxe'') ''VariationalBNN'')
          [Name ''net'', Name ''prior'', Name ''obs_model'', Name ''guide_builder''] [])]"

definition clear_store_stmt :: stmt where
  "clear_store_stmt = ExprStmt (Call (Attr (Name ''pyro'') ''clear_param_store'') [] [])"

definition callback_def_stmt :: stmt where
  "callback_def_stmt =
     FunctionDef ''callback'' [''bnn'', ''i'', ''e'']
       [ExprStmt (Call (Attr (Name ''elbos'') ''append'') [Name ''e''] [])]"

definition cell_21 :: "stmt list" where
  "cell_21 =
    [clear_store_stmt,
     Assign (Name ''optim'')
       (Call (Attr (Attr (Name ''pyro'') ''optim'') ''Adam'')
          [DictE [(StrLit ''lr'', FloatLit ''1e-3'')]] []),
     Assign (Name ''elbos'') (ListE []),
     callback_def_stmt,
     ExprStmt (Call (Attr (Name ''bnn'') ''fit'')
       [Name ''loader'', Name ''optim'', IntLit 20000, Name ''callback''] [])]"

definition cell_22 :: "stmt list" where
  "cell_22 = [ExprStmt (Call (Attr (Name ''plt'') ''plot'') [Name ''elbos''] [])]"

definition cell_24 :: "stmt list" where
  "cell_24 =
    [clear_store_stmt,
     Assign (Name ''mcmc_net'')
       (Call (Attr (Name ''nn'') ''Sequential'')
          [Call (Attr (Name ''nn'') ''Linear'') [IntLit 1, IntLit 50] [],
           Call (Attr (Name ''nn'') ''Tanh'') [] [],
           Call (Attr (Name ''nn'') ''Linear'') [IntLit 50, IntLit 1] []] []),
     Assign (Name ''mcmc_prior'')
       (Call (Attr (Attr (Name ''tyxe'') ''priors'') ''IIDPrior'')
          [Call (Attr (Name ''dist'') ''Normal'') [IntLit 0, IntLit 1] []] []),
     Assign (Name ''mcmc_likelihood'')
       (Call (Attr (Attr (Name ''tyxe'') ''likelihoods'') ''HomoskedasticGaussian'')
          [Call (Name ''len'') [Name ''x''] []] [(''scale'', FloatLit ''0.1'')]),
     Assign (Name ''kernel'')
       (Call (Name ''partial'')
          [Attr (Attr (Attr (Name ''pyro'') ''infer'') ''mcmc'') ''HMC'']
          [(''step_size'', FloatLit ''1e-3''), (''num_steps'', IntLit 50),
           (''target_accept_prob'', FloatLit ''0.7'')]),
     Assign (Name ''mcmc_bnn'')
       (Call (Attr (Attr (Name ''tyxe'') ''bnn'') ''MCMC_BNN'')
          [Name ''mcmc_net'', Name ''mcmc_prior'', Name ''mcmc_likelihood'', Name ''kernel'']
          [])]"

definition cell_25 :: "stmt list" where
  "cell_25 =
    [ExprStmt (Call (Attr (Name ''mcmc_bnn'') ''fit'') [Name ''loader'', IntLit 100000]
       [(''warmup_steps'', IntLit 20000)])]"

definition predict_stmt :: "string \<Rightarrow> stmt" where
  "predict_stmt model =
     Assign (TupleE [Name ''m'', Name ''sd''])
       (Call (Attr (Name model) ''predict'') [Name ''x_test'']
          [(''num_predictions'', IntLit 32)])"

definition cell_27 :: "stmt list" where
  "cell_27 = [predict_stmt ''bnn'']"

definition plot_mean :: stmt where
  "plot_mean =
     ExprStmt (Call (Attr (Name ''plt'') ''plot'')
       [Name ''x_test'', Call (Attr (Name ''m'') ''detach'') [] []]
       [(''color'', StrLit ''blue'')])"

definition band_loop :: stmt where
  "band_loop =
     For (Name ''c'') (Call (Name ''range'') [IntLit 1, IntLit 4] [])
       [ExprStmt (Call (Attr (Name ''plt'') ''fill_between'')
          [Call (Attr (Name ''x_test'') ''squeeze'') [] [],
           Call (Attr (BinOp (Name ''m'') Sub (BinOp (Name ''c'') Mult (Name ''sd'')))
             ''squeeze'') [] [],
           Call (Attr (BinOp (Name ''m'') Add (BinOp (Name ''c'') Mult (Name ''sd'')))
             ''squeeze'') [] []]
          [(''alpha'', BinOp (Name ''c'') Mult (FloatLit ''0.1'')),
           (''color'', StrLit ''blue'')])]"

definition cell_28 :: "stmt list" where
  "cell_28 = [plot_truth, plot_mean, band_loop, set_ylim]"

definition cell_29 :: "stmt list" where
  "cell_29 = [predict_stmt ''mcmc_bnn'']"

definition cell_30 :: "stmt list" where
  "cell_30 = [scatter_data, plot_truth, plot_mean, band_loop, set_ylim]"

definition sample_loop :: stmt where
  "sample_loop =
     For (Name ''yhat'') (Name ''sampled_predictions'')
       [ExprStmt (Call (Attr (Name ''plt'') ''plot'') [Name ''x_test'', Name ''yhat'']
          [(''color'', StrLit ''blue''), (''alpha'', FloatLit ''0.3'')])]"

definition cell_32 :: "stmt list" where
  "cell_32 =
    [Assign (Name ''sampled_predictions'')
       (Call (Attr (Name ''bnn'') ''predict'') [Name ''x_test'']
          [(''num_predictions'', IntLit 25), (''aggregate'', Name ''False'')]),
     scatter_data,
     plot_truth,
     sample_loop,
     set_ylim]"

definition cell_35 :: "stmt list" where
  "cell_35 =
    [Assign (TupleE [Name ''error'', Name ''ll''])
       (Call (Attr (Name ''bnn'') ''evaluate'') [Name ''x_test'', Name ''y_test'', IntLit 32]
          [(''reduction'', StrLit ''mean'')]),
     ExprStmt (Call (Name ''print'')
       [Call (Attr (StrLit ''SVI: error - {:.3f}, log likelihood {:.3f}'') ''format'')
          [Name ''error'', Name ''ll''] []] [])]"

text \<open>The cells in file order; the index of a cell in this list is its number in the file.\<close>

definition notebook :: "cell list" where
  "notebook =
    [Code cell_0, Code cell_1, Markdown, Code cell_3, Code cell_4, Code cell_5,
     Markdown, Markdown, Code cell_8, Code cell_9, Markdown, Markdown,
     Code cell_12, Markdown, Code cell_14, Markdown, Code cell_16, Markdown,
     Code cell_18, Markdown, Code cell_20, Code cell_21, Code cell_22, Markdown,
     Code cell_24, Code cell_25, Markdown, Code cell_27, Code cell_28, Code cell_29,
     Code cell_30, Markdown, Code cell_32, Markdown, Markdown, Code cell_35, Markdown]"

subsection \<open>Traversals\<close>

definition cell_stmts :: "cell \<Rightarrow> stmt list" where
  "cell_stmts c = (case c of Markdown \<Rightarrow> [] | Code ss \<Rightarrow> ss)"

text \<open>The program a top-to-bottom run executes: the statements of the code cells, in order.\<close>

definition program :: "cell list \<Rightarrow> stmt list" where
  "program nb = concat (map cell_stmts nb)"

text \<open>A statement together with every statement nested in it.\<close>

fun substmts :: "stmt \<Rightarrow> stmt list" where
  "substmts (For t i body) = For t i body # concat (map substmts body)"
| "substmts (While c body) = While c body # concat (map substmts body)"
| "substmts (IfElse c a b) = IfElse c a b # concat (map substmts a) @ concat (map substmts b)"
| "substmts (FunctionDef f ps body) = FunctionDef f ps body # concat (map substmts body)"
| "substmts (Try b hs e f) =
     Try b hs e f # concat (map substmts b) @ concat (map (\<lambda>h. concat (map substmts (snd h))) hs)
       @ concat (map substmts e) @ concat (map substmts f)"
| "substmts (With c body) = With c body # concat (map substmts body)"
| "substmts s = [s]"

definition all_stmts :: "stmt list \<Rightarrow> stmt list" where
  "all_stmts ss = concat (map substmts ss)"

text \<open>The expressions a statement holds itself (not those of nested statements).\<close>

fun stmt_exprs :: "stmt \<Rightarrow> expr list" where
  "stmt_exprs (Assign t e) = [t, e]"
| "stmt_exprs (ExprStmt e) = [e]"
| "stmt_exprs (For t i body) = [t, i]"
| "stmt_exprs (While c body) = [c]"
| "stmt_exprs (IfElse c a b) = [c]"
| "stmt_exprs (Try b hs e f) = concat (map (\<lambda>h. case fst h of None \<Rightarrow> [] | Some t \<Rightarrow> [t]) hs)"
| "stmt_exprs (With c body) = [c]"
| "stmt_exprs (Raise e) = [e]"
| "stmt_exprs s = []"

text \<open>An expression together with all its subexpressions.\<close>

fun subexprs :: "expr \<Rightarrow> expr list" where
  "subexprs (Attr e a) = Attr e a # subexprs e"
| "subexprs (Call f args kws) =
     Call f args kws # subexprs f @ concat (map subexprs args)
       @ concat (map (\<lambda>kv. subexprs (snd kv)) kws)"
| "subexprs (BinOp l opr r) = BinOp l opr r # subexprs l @ subexprs r"
| "subexprs (Neg e) = Neg e # subexprs e"
| "subexprs (ListE es) = ListE es # concat (map subexprs es)"
| "subexprs (TupleE es) = TupleE es # concat (map subexprs es)"
| "subexprs (DictE kvs) = DictE kvs # concat (map (\<lambda>kv. subexprs (fst kv) @ subexprs (snd kv)) kvs)"
| "subexprs e = [e]"

definition all_exprs :: "stmt list \<Rightarrow> expr list" where
  "all_exprs ss = concat (map subexprs (concat (map stmt_exprs (all_stmts ss))))"

text \<open>
  The dotted path of a reference, read through calls:
  \<^verbatim>\<open>torch.linspace(-2, 2, 401).unsqueeze\<close> is \<open>[torch, linspace(), unsqueeze]\<close>. An
  expression that is not rooted in a name (a literal, an arithmetic term) contributes
  \<open>''<expr>''\<close>.
\<close>

fun dotted :: "expr \<Rightarrow> string list" where
  "dotted (Name n) = [n]"
| "dotted (Attr e a) = dotted e @ [a]"
| "dotted (Call f args kws) = butlast (dotted f) @ [last (dotted f) @ ''()'']"
| "dotted e = [''<expr>'']"

text \<open>The callees of all calls of a program, in program order, as dotted paths.\<close>

fun callee_of :: "expr \<Rightarrow> string list list" where
  "callee_of (Call f args kws) = [dotted f]"
| "callee_of e = []"

definition callees :: "stmt list \<Rightarrow> string list list" where
  "callees ss = concat (map callee_of (all_exprs ss))"

text \<open>The numbers of the cells that hold (at any depth) a statement satisfying \<open>P\<close>.\<close>

definition cells_where :: "(stmt \<Rightarrow> bool) \<Rightarrow> cell list \<Rightarrow> nat list" where
  "cells_where P nb =
     map fst (filter (\<lambda>ic. list_ex P (all_stmts (cell_stmts (snd ic)))) (enumerate 0 nb))"

subsection \<open>Statement forms\<close>

fun is_for :: "stmt \<Rightarrow> bool" where
  "is_for (For t i b) = True"
| "is_for s = False"

fun is_funcdef :: "stmt \<Rightarrow> bool" where
  "is_funcdef (FunctionDef f ps b) = True"
| "is_funcdef s = False"

fun is_while :: "stmt \<Rightarrow> bool" where
  "is_while (While c b) = True"
| "is_while s = False"

fun is_branch :: "stmt \<Rightarrow> bool" where
  "is_branch (IfElse c a b) = True"
| "is_branch s = False"

text \<open>The statements that can stop an exception from leaving the cell.\<close>

fun is_handler :: "stmt \<Rightarrow> bool" where
  "is_handler (Try b hs e f) = True"
| "is_handler (With c b) = True"
| "is_handler s = False"

fun is_raise :: "stmt \<Rightarrow> bool" where
  "is_raise (Raise e) = True"
| "is_raise s = False"

text \<open>A statement without a body: an import, a magic, an assignment, an expression.\<close>

fun simple_stmt :: "stmt \<Rightarrow> bool" where
  "simple_stmt (Import m a) = True"
| "simple_stmt (ImportFrom m n) = True"
| "simple_stmt (Magic m) = True"
| "simple_stmt (Assign t e) = True"
| "simple_stmt (ExprStmt e) = True"
| "simple_stmt s = False"

text \<open>
  The reading of "each step is a direct call with no control flow of its own": every
  statement of every cell is a simple statement.
\<close>

definition direct_calls_only :: "cell list \<Rightarrow> bool" where
  "direct_calls_only nb = list_all simple_stmt (program nb)"

definition handler_free :: "stmt list \<Rightarrow> bool" where
  "handler_free ss = list_all (\<lambda>s. \<not> is_handler s) (all_stmts ss)"

definition while_free :: "stmt list \<Rightarrow> bool" where
  "while_free ss = list_all (\<lambda>s. \<not> is_while s) (all_stmts ss)"

text \<open>Duplicates removed, first occurrences kept.\<close>

definition nub :: "'a list \<Rightarrow> 'a list" where
  "nub xs = rev (remdups (rev xs))"

subsection \<open>Names: what is imported, bound and used\<close>



fun target_names :: "expr \<Rightarrow> string list" where
  "target_names (Name n) = [n]"
| "target_names (TupleE es) = concat (map target_names es)"
| "target_names (ListE es) = concat (map target_names es)"
| "target_names e = []"

text \<open>
  The names a statement binds in the namespace it runs in. \<^verbatim>\<open>import a.b\<close> binds \<open>a\<close>,
  \<^verbatim>\<open>import a.b as c\<close> binds \<open>c\<close>, \<^verbatim>\<open>from m import n\<close> binds \<open>n\<close>.
\<close>

fun stmt_bindings :: "stmt \<Rightarrow> string list" where
  "stmt_bindings (Import m None) = [takeWhile (\<lambda>c. c \<noteq> CHR ''.'') m]"
| "stmt_bindings (Import m (Some a)) = [a]"
| "stmt_bindings (ImportFrom m n) = [n]"
| "stmt_bindings (Assign t e) = target_names t"
| "stmt_bindings (For t i b) = target_names t"
| "stmt_bindings (FunctionDef f ps b) = f # ps"
| "stmt_bindings s = []"


definition bound_names :: "stmt list \<Rightarrow> string list" where
  "bound_names ss = concat (map stmt_bindings (all_stmts ss))"

fun name_of :: "expr \<Rightarrow> string list" where
  "name_of (Name n) = [n]"
| "name_of e = []"

definition names_used :: "stmt list \<Rightarrow> string list" where
  "names_used ss = concat (map name_of (all_exprs ss))"

text \<open>The names a program uses and does not bind itself.\<close>

definition free_names :: "stmt list \<Rightarrow> string list" where
  "free_names ss = nub (filter (\<lambda>n. \<not> List.member (bound_names ss) n) (names_used ss))"


text \<open>The positional arguments of the calls of the given methods.\<close>

fun arguments_of :: "string list \<Rightarrow> expr \<Rightarrow> expr list" where
  "arguments_of ms (Call f args kws) = (if List.member ms (last (dotted f)) then args else [])"
| "arguments_of ms e = []"

definition arguments_to :: "string list \<Rightarrow> stmt list \<Rightarrow> expr list" where
  "arguments_to ms ss = nub (concat (map (arguments_of ms) (all_exprs ss)))"

text \<open>The expressions a program assigns to a name, and the keyword arguments of calls.\<close>

fun assigned_to :: "string \<Rightarrow> stmt \<Rightarrow> expr list" where
  "assigned_to n (Assign t e) = (if t = Name n then [e] else [])"
| "assigned_to n s = []"

definition assigned :: "string \<Rightarrow> stmt list \<Rightarrow> expr list" where
  "assigned n ss = concat (map (assigned_to n) (all_stmts ss))"



subsection \<open>Stages\<close>

fun is_ref :: "expr \<Rightarrow> bool" where
  "is_ref (Name n) = True"
| "is_ref (Attr e a) = True"
| "is_ref e = False"

text \<open>Every name and attribute reference of a program, as dotted paths.\<close>

definition refs :: "stmt list \<Rightarrow> string list list" where
  "refs ss = map dotted (filter is_ref (all_exprs ss))"

datatype stage =
    DataSynthesis
  | NetworkDefinition
  | BaselineFit
  | ModelAssembly
  | Inference
  | Prediction
  | Visualization

text \<open>
  The stage a reference belongs to, read off the library it goes to: \<open>plt\<close> draws;
  \<open>.fit\<close> of a model infers; \<open>.predict\<close> and \<open>.evaluate\<close> predict and evaluate; \<open>tyxe\<close>
  supplies the parts of a Bayesian model; \<open>nn\<close> defines a network; \<open>zero_grad\<close>,
  \<open>backward\<close> and \<open>step\<close> drive the optimiser by hand; \<open>torch.rand\<close>,
  \<open>torch.randn_like\<close>, \<open>torch.cat\<close>, \<open>torch.linspace\<close>, \<open>data.TensorDataset\<close> and
  \<open>data.DataLoader\<close> make the data. Other references (variables, tensor arithmetic,
  \<open>pyro\<close> set-up calls, builtins) mark no stage.
\<close>

definition path_stage :: "string list \<Rightarrow> stage option" where
  "path_stage p =
     (if p = [] then None
      else if hd p = ''plt'' then Some Visualization
      else if last p = ''fit'' then Some Inference
      else if last p = ''predict'' \<or> last p = ''evaluate'' then Some Prediction
      else if hd p = ''tyxe'' then Some ModelAssembly
      else if hd p = ''nn'' then Some NetworkDefinition
      else if List.member [''zero_grad'', ''backward'', ''step''] (last p) then Some BaselineFit
      else if List.member
          [[''torch'', ''rand''], [''torch'', ''randn_like''], [''torch'', ''cat''],
           [''torch'', ''linspace''], [''data'', ''TensorDataset''], [''data'', ''DataLoader'']] p
        then Some DataSynthesis
      else None)"

definition cell_stages :: "cell \<Rightarrow> stage list" where
  "cell_stages c = nub (List.map_filter path_stage (refs (cell_stmts c)))"

text \<open>The code cells that mark a stage, by number, each with its stages.\<close>

definition stage_table :: "cell list \<Rightarrow> (nat \<times> stage list) list" where
  "stage_table nb = filter (\<lambda>r. snd r \<noteq> []) (enumerate 0 (map cell_stages nb))"

text \<open>
  The order the specification gives: data, baseline fit, assembly of the Bayesian model,
  inference, prediction and evaluation, visualisation. Defining a network belongs to
  the baseline fit and to the assembly alike, and is left out of the sequence that is
  compared with this order.
\<close>

fun stage_rank :: "stage \<Rightarrow> nat" where
  "stage_rank DataSynthesis = 0"
| "stage_rank BaselineFit = 1"
| "stage_rank NetworkDefinition = 2"
| "stage_rank ModelAssembly = 2"
| "stage_rank Inference = 3"
| "stage_rank Prediction = 4"
| "stage_rank Visualization = 5"

definition stage_sequence :: "cell list \<Rightarrow> stage list" where
  "stage_sequence nb = filter (\<lambda>st. st \<noteq> NetworkDefinition) (concat (map cell_stages nb))"

text \<open>"No later stage precedes an earlier one": the ranks never decrease along the cells.\<close>

definition stages_in_order :: "cell list \<Rightarrow> bool" where
  "stages_in_order nb = sorted (map stage_rank (stage_sequence nb))"

text \<open>The number of the first cell of a stage.\<close>

definition first_cell :: "stage \<Rightarrow> cell list \<Rightarrow> nat option" where
  "first_cell st nb =
     map_option fst (find (\<lambda>r. List.member (snd r) st) (enumerate 0 (map cell_stages nb)))"

section \<open>Running the program: exceptions\<close>

text \<open>
  A top-to-bottom run executes the statements of the code cells in order. What a simple
  statement does is decided by the interpreter and the libraries it calls into; that part
  is a parameter, the \<open>runtime\<close>: each of its operations either returns or raises, and
  leaves a new state of the world. The control flow of the statement forms is Python's:
  a block stops at the first statement that raises; \<open>for\<close> binds each item and runs the
  body; \<open>try\<close> hands an exception of its body to the first handler that accepts it and
  runs its \<open>finally\<close> block in any case; \<open>with\<close> lets the context manager suppress an
  exception of its body. A \<open>while\<close> loop is run with fuel, and \<open>None\<close> means the fuel
  ran out (\<open>break\<close>, \<open>continue\<close> and loop \<open>else\<close> clauses are not part of the fragment).
\<close>

datatype exn = Exception string

datatype ('a, 'w) res = Ok 'a 'w | Raised exn 'w

record ('w, 'v) runtime =
  run_simple :: "stmt \<Rightarrow> 'w \<Rightarrow> (unit, 'w) res"
  eval_iter :: "expr \<Rightarrow> 'w \<Rightarrow> ('v list, 'w) res"
  bind_var :: "expr \<Rightarrow> 'v \<Rightarrow> 'w \<Rightarrow> (unit, 'w) res"
  eval_test :: "expr \<Rightarrow> 'w \<Rightarrow> (bool, 'w) res"
  eval_raise :: "expr \<Rightarrow> 'w \<Rightarrow> exn \<times> 'w"
  handles :: "expr option \<Rightarrow> exn \<Rightarrow> bool"
  enter_ctx :: "expr \<Rightarrow> 'w \<Rightarrow> (unit, 'w) res"
  exit_ctx :: "expr \<Rightarrow> exn option \<Rightarrow> 'w \<Rightarrow> (bool, 'w) res"

function (sequential) exec :: "('w, 'v) runtime \<Rightarrow> nat \<Rightarrow> stmt \<Rightarrow> 'w \<Rightarrow> (unit, 'w) res option"
and exec_block :: "('w, 'v) runtime \<Rightarrow> nat \<Rightarrow> stmt list \<Rightarrow> 'w \<Rightarrow> (unit, 'w) res option"
and exec_for ::
  "('w, 'v) runtime \<Rightarrow> nat \<Rightarrow> expr \<Rightarrow> stmt list \<Rightarrow> 'v list \<Rightarrow> 'w \<Rightarrow> (unit, 'w) res option"
and exec_handlers ::
  "('w, 'v) runtime \<Rightarrow> nat \<Rightarrow> (expr option \<times> stmt list) list \<Rightarrow> exn \<Rightarrow> 'w
     \<Rightarrow> (unit, 'w) res option"
and exec_finally ::
  "('w, 'v) runtime \<Rightarrow> nat \<Rightarrow> stmt list \<Rightarrow> (unit, 'w) res \<Rightarrow> (unit, 'w) res option"
where
  "exec R n (Import m a) w = Some (run_simple R (Import m a) w)"
| "exec R n (ImportFrom m a) w = Some (run_simple R (ImportFrom m a) w)"
| "exec R n (Magic m) w = Some (run_simple R (Magic m) w)"
| "exec R n (Assign t e) w = Some (run_simple R (Assign t e) w)"
| "exec R n (ExprStmt e) w = Some (run_simple R (ExprStmt e) w)"
| "exec R n (FunctionDef f ps body) w = Some (run_simple R (FunctionDef f ps body) w)"
| "exec R n (Raise e) w = Some (case eval_raise R e w of (x, w') \<Rightarrow> Raised x w')"
| "exec R n (For t it body) w =
     (case eval_iter R it w of
        Raised e w' \<Rightarrow> Some (Raised e w')
      | Ok vs w' \<Rightarrow> exec_for R n t body vs w')"
| "exec R n (While c body) w =
     (case n of
        0 \<Rightarrow> None
      | Suc k \<Rightarrow>
          (case eval_test R c w of
             Raised e w' \<Rightarrow> Some (Raised e w')
           | Ok go w' \<Rightarrow>
               if go then
                 (case exec_block R k body w' of
                    None \<Rightarrow> None
                  | Some (Raised e w'') \<Rightarrow> Some (Raised e w'')
                  | Some (Ok u w'') \<Rightarrow> exec R k (While c body) w'')
               else Some (Ok () w')))"
| "exec R n (IfElse c a b) w =
     (case eval_test R c w of
        Raised e w' \<Rightarrow> Some (Raised e w')
      | Ok t w' \<Rightarrow> if t then exec_block R n a w' else exec_block R n b w')"
| "exec R n (Try body hs orelse fin) w =
     (case exec_block R n body w of
        None \<Rightarrow> None
      | Some (Ok u w1) \<Rightarrow>
          (case exec_block R n orelse w1 of
             None \<Rightarrow> None
           | Some r \<Rightarrow> exec_finally R n fin r)
      | Some (Raised e w1) \<Rightarrow>
          (case exec_handlers R n hs e w1 of
             None \<Rightarrow> None
           | Some r \<Rightarrow> exec_finally R n fin r))"
| "exec R n (With c body) w =
     (case enter_ctx R c w of
        Raised e w' \<Rightarrow> Some (Raised e w')
      | Ok u w' \<Rightarrow>
          (case exec_block R n body w' of
             None \<Rightarrow> None
           | Some (Ok u' w'') \<Rightarrow>
               (case exit_ctx R c None w'' of
                  Raised e w3 \<Rightarrow> Some (Raised e w3)
                | Ok s w3 \<Rightarrow> Some (Ok () w3))
           | Some (Raised e w'') \<Rightarrow>
               (case exit_ctx R c (Some e) w'' of
                  Raised e' w3 \<Rightarrow> Some (Raised e' w3)
                | Ok suppress w3 \<Rightarrow> Some (if suppress then Ok () w3 else Raised e w3))))"
| "exec_block R n [] w = Some (Ok () w)"
| "exec_block R n (s # ss) w =
     (case exec R n s w of
        None \<Rightarrow> None
      | Some (Raised e w') \<Rightarrow> Some (Raised e w')
      | Some (Ok u w') \<Rightarrow> exec_block R n ss w')"
| "exec_for R n t body [] w = Some (Ok () w)"
| "exec_for R n t body (v # vs) w =
     (case bind_var R t v w of
        Raised e w' \<Rightarrow> Some (Raised e w')
      | Ok u w' \<Rightarrow>
          (case exec_block R n body w' of
             None \<Rightarrow> None
           | Some (Raised e w'') \<Rightarrow> Some (Raised e w'')
           | Some (Ok u' w'') \<Rightarrow> exec_for R n t body vs w''))"
| "exec_handlers R n [] e w = Some (Raised e w)"
| "exec_handlers R n (h # hs) e w =
     (if handles R (fst h) e then exec_block R n (snd h) w else exec_handlers R n hs e w)"
| "exec_finally R n fin (Ok u w) = exec_block R n fin w"
| "exec_finally R n fin (Raised e w) =
     (case exec_block R n fin w of
        None \<Rightarrow> None
      | Some (Ok u w') \<Rightarrow> Some (Raised e w')
      | Some (Raised e' w') \<Rightarrow> Some (Raised e' w'))"
  by pat_completeness auto

termination
  by (relation "measures
        [case_sum (case_sum (\<lambda>(R, n, s, w). n) (\<lambda>(R, n, ss, w). n))
           (case_sum (\<lambda>(R, n, t, body, vs, w). n)
              (case_sum (\<lambda>(R, n, hs, e, w). n) (\<lambda>(R, n, fin, r). n))),
         case_sum (case_sum (\<lambda>(R, n, s, w). 2 * size s + 1)
                     (\<lambda>(R, n, ss, w). 2 * size_list size ss + 1))
           (case_sum (\<lambda>(R, n, t, body, vs, w). 2 * size_list size body + 2)
              (case_sum
                 (\<lambda>(R, n, hs, e, w).
                    2 * size_list (size_prod (\<lambda>x. 0) (size_list size)) hs + 1)
                 (\<lambda>(R, n, fin, r). 2 * size_list size fin + 2))),
         case_sum (case_sum (\<lambda>(R, n, s, w). 0) (\<lambda>(R, n, ss, w). 0))
           (case_sum (\<lambda>(R, n, t, body, vs, w). length vs)
              (case_sum (\<lambda>(R, n, hs, e, w). 0) (\<lambda>(R, n, fin, r). 0)))]")
     auto


text \<open>
  Observing a run: the traced runtime does what the given one does and records, for every
  operation, whether it returned or raised.
\<close>

datatype event = Returned | Threw exn

fun traced_op :: "('w \<Rightarrow> ('a, 'w) res) \<Rightarrow> 'w \<times> event list \<Rightarrow> ('a, 'w \<times> event list) res" where
  "traced_op f (w, tr) =
     (case f w of
        Ok a w' \<Rightarrow> Ok a (w', tr @ [Returned])
      | Raised e w' \<Rightarrow> Raised e (w', tr @ [Threw e]))"

definition traced :: "('w, 'v) runtime \<Rightarrow> ('w \<times> event list, 'v) runtime" where
  "traced R =
     \<lparr>run_simple = \<lambda>s. traced_op (run_simple R s),
      eval_iter = \<lambda>e. traced_op (eval_iter R e),
      bind_var = \<lambda>t v. traced_op (bind_var R t v),
      eval_test = \<lambda>e. traced_op (eval_test R e),
      eval_raise = \<lambda>e wt. (case eval_raise R e (fst wt) of (x, w') \<Rightarrow> (x, (w', snd wt @ [Threw x]))),
      handles = handles R,
      enter_ctx = \<lambda>e. traced_op (enter_ctx R e),
      exit_ctx = \<lambda>e x. traced_op (exit_ctx R e x)\<rparr>"

text \<open>
  An outcome reports an exception as it was raised: nothing raised before the end of the
  trace, and if the run ends with an exception, the last operation raised it. A handler
  is what breaks this: the trace then goes on after a \<open>Threw\<close>.
\<close>

definition clean :: "event list \<Rightarrow> bool" where
  "clean tr = list_all (\<lambda>ev. ev = Returned) tr"

fun propagated :: "(unit, 'w \<times> event list) res \<Rightarrow> bool" where
  "propagated (Ok u wt) = clean (snd wt)"
| "propagated (Raised e wt) = (snd wt \<noteq> [] \<and> last (snd wt) = Threw e \<and> clean (butlast (snd wt)))"

text \<open>Dropping the trace from an outcome.\<close>

definition forget :: "('a, 'w \<times> event list) res \<Rightarrow> ('a, 'w) res" where
  "forget r = (case r of Ok a wt \<Rightarrow> Ok a (fst wt) | Raised e wt \<Rightarrow> Raised e (fst wt))"

text \<open>
  A runtime to run the notebook on: every simple statement returns and is counted,
  except the call of \<open>bnn.fit\<close> that ends cell 21, which raises; every loop gets one
  item.
\<close>

definition failing_fit :: "(nat, unit) runtime" where
  "failing_fit =
     \<lparr>run_simple = (\<lambda>s w. if s = last cell_21 then Raised (Exception ''RuntimeError'') w
                            else Ok () (Suc w)),
      eval_iter = (\<lambda>e w. Ok [()] w),
      bind_var = (\<lambda>t v w. Ok () w),
      eval_test = (\<lambda>e w. Ok False w),
      eval_raise = (\<lambda>e w. (Exception ''Exception'', w)),
      handles = (\<lambda>t e. False),
      enter_ctx = (\<lambda>e w. Ok () w),
      exit_ctx = (\<lambda>e x w. Ok False w)\<rparr>"

section \<open>The cells as state transformers\<close>

text \<open>
  What the cells do, for the cells that set up the interpreter, make the data, fit the
  baseline and assemble and fit the models (cells 0 to 24). The state is what a cell can
  read and write: the interpreter's import path, the generator of random numbers and the
  parameter store that the frameworks keep globally, the module namespace of the
  notebook, and the figures drawn so far. A float tensor of shape \<open>(n, 1)\<close> or \<open>(n)\<close> is
  the list of its \<open>n\<close> entries, over the reals. Reading a name that is not bound, or
  bound to a value of the wrong kind, is an error, as in the interpreter (\<open>TypeError\<close>
  stands for whichever error the wrong kind of value raises). An import binds its name;
  finding the module on the import path is left to the interpreter. The cells after 24
  (the MCMC fit, the predictions, the evaluation and their plots) work on the objects
  built here through library calls alone; they are part of the program text above.
\<close>

type_synonym tensor = "real list"

datatype layer = Linear nat nat | Tanh

datatype distribution = Normal real real

datatype prior = IIDPrior distribution

datatype likelihood = HomoskedasticGaussian nat real

datatype guide_builder = AutoNormal real

datatype kernel_builder = HMC real nat real

text \<open>
  The values the notebook binds. A network is its layers and its weights; an optimiser is
  its learning rate and, for the one the notebook steps by hand, its running state.
\<close>

datatype pyval =
    Imported string
  | Tensor tensor
  | FloatList "real list"
  | TensorDataset "(real \<times> real) list"
  | DataLoader "(real \<times> real) list" nat
  | Sequential "layer list" "real list"
  | TorchAdam real "real list"
  | PyroAdam real
  | PriorV prior
  | LikelihoodV likelihood
  | GuideBuilder guide_builder
  | KernelBuilder kernel_builder
  | VariationalBNN "layer list" "real list" prior likelihood guide_builder
  | MCMC_BNN "layer list" "real list" prior likelihood kernel_builder
  | Function string

datatype error = NameError string | TypeError string | AssertionError | ValueError

text \<open>A figure command, with the data it draws (colours and styles are left out).\<close>

datatype figure =
    Scatter tensor tensor
  | Line tensor tensor
  | LinePlot "real list"
  | YLim real real

record 'g state =
  sys_path :: "string list"
  rng :: 'g
  param_store :: "string \<rightharpoonup> real list"
  globals :: "string \<rightharpoonup> pyval"
  display :: "figure list"

text \<open>
  What the libraries compute is a parameter: how the generator is seeded and draws, how
  a network's weights are initialised and applied, what one step of Adam on an objective
  does to weights and optimiser state, and what one step of stochastic variational
  inference on a batch does to the parameter store and the generator and which loss it
  returns.
\<close>

record 'g library =
  seed_rng :: "int \<Rightarrow> 'g"
  uniform :: "'g \<Rightarrow> real \<times> 'g"
  normal :: "'g \<Rightarrow> real \<times> 'g"
  init_params :: "layer list \<Rightarrow> 'g \<Rightarrow> real list \<times> 'g"
  forward :: "layer list \<Rightarrow> real list \<Rightarrow> tensor \<Rightarrow> tensor"
  adam_step :: "real \<Rightarrow> (real list \<Rightarrow> real) \<Rightarrow> real list \<times> real list \<Rightarrow> real list \<times> real list"
  svi_step ::
    "pyval \<Rightarrow> real \<Rightarrow> (real \<times> real) list \<Rightarrow> (string \<rightharpoonup> real list) \<times> 'g
       \<Rightarrow> real \<times> (string \<rightharpoonup> real list) \<times> 'g"

definition seq :: "error + 'a \<Rightarrow> ('a \<Rightarrow> error + 'b) \<Rightarrow> error + 'b" where
  "seq m f = (case m of Inl e \<Rightarrow> Inl e | Inr a \<Rightarrow> f a)"

definition expect :: "(pyval \<Rightarrow> 'a option) \<Rightarrow> string \<Rightarrow> 'g state \<Rightarrow> error + 'a" where
  "expect as n s =
     (case globals s n of
        None \<Rightarrow> Inl (NameError n)
      | Some v \<Rightarrow> (case as v of None \<Rightarrow> Inl (TypeError n) | Some a \<Rightarrow> Inr a))"

definition bind_name :: "string \<Rightarrow> pyval \<Rightarrow> 'g state \<Rightarrow> 'g state" where
  "bind_name n v s = s\<lparr>globals := (globals s)(n \<mapsto> v)\<rparr>"

fun as_import :: "pyval \<Rightarrow> string option" where
  "as_import (Imported m) = Some m"
| "as_import v = None"

fun as_tensor :: "pyval \<Rightarrow> tensor option" where
  "as_tensor (Tensor t) = Some t"
| "as_tensor v = None"

fun as_float_list :: "pyval \<Rightarrow> real list option" where
  "as_float_list (FloatList t) = Some t"
| "as_float_list v = None"

fun as_dataset :: "pyval \<Rightarrow> (real \<times> real) list option" where
  "as_dataset (TensorDataset rows) = Some rows"
| "as_dataset v = None"

fun as_loader :: "pyval \<Rightarrow> ((real \<times> real) list \<times> nat) option" where
  "as_loader (DataLoader rows n) = Some (rows, n)"
| "as_loader v = None"

fun as_network :: "pyval \<Rightarrow> (layer list \<times> real list) option" where
  "as_network (Sequential ls w) = Some (ls, w)"
| "as_network v = None"

fun as_torch_optim :: "pyval \<Rightarrow> (real \<times> real list) option" where
  "as_torch_optim (TorchAdam lr st) = Some (lr, st)"
| "as_torch_optim v = None"

fun as_pyro_optim :: "pyval \<Rightarrow> real option" where
  "as_pyro_optim (PyroAdam lr) = Some lr"
| "as_pyro_optim v = None"

fun as_prior :: "pyval \<Rightarrow> prior option" where
  "as_prior (PriorV p) = Some p"
| "as_prior v = None"

fun as_likelihood :: "pyval \<Rightarrow> likelihood option" where
  "as_likelihood (LikelihoodV l) = Some l"
| "as_likelihood v = None"

fun as_guide :: "pyval \<Rightarrow> guide_builder option" where
  "as_guide (GuideBuilder g) = Some g"
| "as_guide v = None"

fun as_kernel :: "pyval \<Rightarrow> kernel_builder option" where
  "as_kernel (KernelBuilder k) = Some k"
| "as_kernel v = None"

fun as_variational :: "pyval \<Rightarrow> pyval option" where
  "as_variational (VariationalBNN n w p l g) = Some (VariationalBNN n w p l g)"
| "as_variational v = None"

fun as_function :: "pyval \<Rightarrow> string option" where
  "as_function (Function f) = Some f"
| "as_function v = None"

subsection \<open>Tensor operations\<close>

text \<open>\<^verbatim>\<open>torch.rand(n, 1)\<close> and \<^verbatim>\<open>torch.randn_like\<close>: \<open>n\<close> draws from the global generator.\<close>

fun draws :: "('g \<Rightarrow> real \<times> 'g) \<Rightarrow> nat \<Rightarrow> 'g \<Rightarrow> real list \<times> 'g" where
  "draws f 0 g = ([], g)"
| "draws f (Suc n) g =
     (case f g of (v, g') \<Rightarrow> (case draws f n g' of (vs, g'') \<Rightarrow> (v # vs, g'')))"

text \<open>\<^verbatim>\<open>torch.linspace(a, b, n)\<close>: \<open>n\<close> points from \<open>a\<close> to \<open>b\<close>, both included.\<close>

definition linspace :: "real \<Rightarrow> real \<Rightarrow> nat \<Rightarrow> tensor" where
  "linspace a b n = map (\<lambda>i. a + real i * ((b - a) / real (n - 1))) [0..<n]"

text \<open>\<^verbatim>\<open>t.mul(4).add(0.8).cos()\<close>, entry by entry.\<close>

definition mul_add_cos :: "tensor \<Rightarrow> tensor" where
  "mul_add_cos t = map (\<lambda>v. cos (v * 4 + 0.8)) t"

text \<open>\<^verbatim>\<open>p.sub(t).pow(2).mean()\<close>: the objective the baseline fit writes out.\<close>

definition sub_pow_mean :: "tensor \<Rightarrow> tensor \<Rightarrow> real" where
  "sub_pow_mean p t = sum_list (map (\<lambda>d. d ^ 2) (map2 (\<lambda>a b. a - b) p t)) / real (length p)"

text \<open>
  Iterating over a \<^verbatim>\<open>DataLoader\<close> (no shuffling, last batch kept): the rows in order, in
  batches of \<open>batch_size\<close>.
\<close>

function chunks :: "nat \<Rightarrow> 'a list \<Rightarrow> 'a list list" where
  "chunks n xs = (if n = 0 \<or> xs = [] then [] else take n xs # chunks n (drop n xs))"
  by pat_completeness auto
termination
  by (relation "measure (\<lambda>(n, xs). length xs)") auto

definition batches :: "(real \<times> real) list \<times> nat \<Rightarrow> (real \<times> real) list list" where
  "batches ld = chunks (snd ld) (fst ld)"

subsection \<open>Cells 0 to 9: set-up, data, baseline\<close>

definition run_cell_0 :: "'g state \<Rightarrow> error + 'g state" where
  "run_cell_0 s =
     (let s1 = bind_name ''sys'' (Imported ''sys'') s in
      seq (expect as_import ''sys'' s1) (\<lambda>m.
      Inr (s1\<lparr>sys_path := sys_path s1 @ [''..'']\<rparr>)))"

definition run_cell_1 :: "'g library \<Rightarrow> 'g state \<Rightarrow> error + 'g state" where
  "run_cell_1 L s =
     (let s1 = bind_name ''partial'' (Imported ''functools.partial'') s;
          s2 = bind_name ''plt'' (Imported ''matplotlib.pyplot'') s1;
          s3 = bind_name ''torch'' (Imported ''torch'') s2;
          s4 = bind_name ''nn'' (Imported ''torch.nn'') s3;
          s5 = bind_name ''data'' (Imported ''torch.utils.data'') s4;
          s6 = bind_name ''pyro'' (Imported ''pyro'') s5;
          s7 = bind_name ''dist'' (Imported ''pyro.distributions'') s6;
          s8 = bind_name ''tyxe'' (Imported ''tyxe'') s7 in
      seq (expect as_import ''pyro'' s8) (\<lambda>m.
      Inr (s8\<lparr>rng := seed_rng L 42\<rparr>)))"

definition run_cell_3 :: "'g library \<Rightarrow> 'g state \<Rightarrow> error + 'g state" where
  "run_cell_3 L s =
     seq (expect as_import ''torch'' s) (\<lambda>m.
     let r1 = draws (uniform L) 50 (rng s);
         s1 = bind_name ''x1'' (Tensor (map (\<lambda>u. u * 0.3 - 1) (fst r1))) (s\<lparr>rng := snd r1\<rparr>);
         r2 = draws (uniform L) 50 (rng s1);
         s2 = bind_name ''x2'' (Tensor (map (\<lambda>u. u * 0.5 + 0.5) (fst r2))) (s1\<lparr>rng := snd r2\<rparr>)
     in
     seq (expect as_tensor ''x1'' s2) (\<lambda>x1.
     seq (expect as_tensor ''x2'' s2) (\<lambda>x2.
     let s3 = bind_name ''x'' (Tensor (x1 @ x2)) s2 in
     seq (expect as_tensor ''x'' s3) (\<lambda>x.
     let r3 = draws (normal L) (length x) (rng s3);
         s4 = bind_name ''y''
                (Tensor (map2 (\<lambda>a b. a + b) (mul_add_cos x) (map (\<lambda>n. 0.1 * n) (fst r3))))
                (s3\<lparr>rng := snd r3\<rparr>);
         s5 = bind_name ''x_test'' (Tensor (linspace (- 2) 2 401)) s4
     in
     seq (expect as_tensor ''x_test'' s5) (\<lambda>x_test.
     Inr (bind_name ''y_test'' (Tensor (mul_add_cos x_test)) s5))))))"

definition run_cell_4 :: "'g state \<Rightarrow> error + 'g state" where
  "run_cell_4 s =
     seq (expect as_import ''data'' s) (\<lambda>m.
     seq (expect as_tensor ''x'' s) (\<lambda>x.
     seq (expect as_tensor ''y'' s) (\<lambda>y.
     if length x \<noteq> length y then Inl AssertionError
     else
       let s1 = bind_name ''dataset'' (TensorDataset (zip x y)) s in
       seq (expect as_dataset ''dataset'' s1) (\<lambda>rows.
       seq (expect as_tensor ''x'' s1) (\<lambda>x'.
       if length x' = 0 then Inl ValueError
       else Inr (bind_name ''loader'' (DataLoader rows (length x')) s1))))))"

definition run_cell_5 :: "'g state \<Rightarrow> error + 'g state" where
  "run_cell_5 s =
     seq (expect as_import ''plt'' s) (\<lambda>m.
     seq (expect as_tensor ''x'' s) (\<lambda>x.
     seq (expect as_tensor ''y'' s) (\<lambda>y.
     seq (expect as_tensor ''x_test'' s) (\<lambda>x_test.
     seq (expect as_tensor ''y_test'' s) (\<lambda>y_test.
     Inr (s\<lparr>display := display s @ [Scatter x y, Line x_test y_test]\<rparr>))))))"

definition run_cell_8 :: "'g library \<Rightarrow> 'g state \<Rightarrow> error + 'g state" where
  "run_cell_8 L s =
     seq (expect as_import ''nn'' s) (\<lambda>m.
     let r = init_params L [Linear 1 50, Tanh, Linear 50 1] (rng s);
         s1 = bind_name ''net'' (Sequential [Linear 1 50, Tanh, Linear 50 1] (fst r))
                (s\<lparr>rng := snd r\<rparr>)
     in
     seq (expect as_import ''torch'' s1) (\<lambda>m.
     seq (expect as_network ''net'' s1) (\<lambda>params.
     let s2 = bind_name ''optim'' (TorchAdam 0.0001 []) s1 in
     seq (expect as_torch_optim ''optim'' s2) (\<lambda>opt.
     seq (expect as_network ''net'' s2) (\<lambda>net.
     seq (expect as_tensor ''x'' s2) (\<lambda>x.
     seq (expect as_tensor ''y'' s2) (\<lambda>y.
     let trained =
           ((adam_step L (fst opt) (\<lambda>w. sub_pow_mean (forward L (fst net) w x) y)) ^^ 10000)
             (snd net, snd opt)
     in
     Inr (bind_name ''optim'' (TorchAdam (fst opt) (snd trained))
            (bind_name ''net'' (Sequential (fst net) (fst trained)) s2)))))))))"

definition run_cell_9 :: "'g library \<Rightarrow> 'g state \<Rightarrow> error + 'g state" where
  "run_cell_9 L s =
     seq (expect as_import ''plt'' s) (\<lambda>m.
     seq (expect as_tensor ''x'' s) (\<lambda>x.
     seq (expect as_tensor ''y'' s) (\<lambda>y.
     seq (expect as_tensor ''x_test'' s) (\<lambda>x_test.
     seq (expect as_tensor ''y_test'' s) (\<lambda>y_test.
     seq (expect as_network ''net'' s) (\<lambda>net.
     Inr (s\<lparr>display := display s @
            [Scatter x y, Line x_test y_test,
             Line x_test (forward L (fst net) (snd net) x_test), YLim (- 2) 2]\<rparr>)))))))"

subsection \<open>Cells 12 to 24: the Bayesian models\<close>

definition run_cell_12 :: "'g library \<Rightarrow> 'g state \<Rightarrow> error + 'g state" where
  "run_cell_12 L s =
     seq (expect as_import ''nn'' s) (\<lambda>m.
     let r = init_params L [Linear 1 50, Tanh, Linear 50 1] (rng s) in
     Inr (bind_name ''net'' (Sequential [Linear 1 50, Tanh, Linear 50 1] (fst r))
            (s\<lparr>rng := snd r\<rparr>)))"

definition run_cell_14 :: "'g state \<Rightarrow> error + 'g state" where
  "run_cell_14 s =
     seq (expect as_import ''tyxe'' s) (\<lambda>m.
     seq (expect as_import ''dist'' s) (\<lambda>d.
     Inr (bind_name ''prior'' (PriorV (IIDPrior (Normal 0 1))) s)))"

definition run_cell_16 :: "'g state \<Rightarrow> error + 'g state" where
  "run_cell_16 s =
     seq (expect as_import ''tyxe'' s) (\<lambda>m.
     seq (expect as_tensor ''x'' s) (\<lambda>x.
     Inr (bind_name ''obs_model'' (LikelihoodV (HomoskedasticGaussian (length x) 0.1)) s)))"

definition run_cell_18 :: "'g state \<Rightarrow> error + 'g state" where
  "run_cell_18 s =
     seq (expect as_import ''partial'' s) (\<lambda>p.
     seq (expect as_import ''tyxe'' s) (\<lambda>m.
     Inr (bind_name ''guide_builder'' (GuideBuilder (AutoNormal 0.01)) s)))"

definition run_cell_20 :: "'g state \<Rightarrow> error + 'g state" where
  "run_cell_20 s =
     seq (expect as_import ''tyxe'' s) (\<lambda>m.
     seq (expect as_network ''net'' s) (\<lambda>n.
     seq (expect as_prior ''prior'' s) (\<lambda>p.
     seq (expect as_likelihood ''obs_model'' s) (\<lambda>l.
     seq (expect as_guide ''guide_builder'' s) (\<lambda>g.
     Inr (bind_name ''bnn'' (VariationalBNN (fst n) (snd n) p l g) s))))))"

text \<open>\<^verbatim>\<open>pyro.clear_param_store()\<close>.\<close>

definition clear_param_store :: "'g state \<Rightarrow> 'g state" where
  "clear_param_store s = s\<lparr>param_store := Map.empty\<rparr>"

text \<open>
  The callback of cell 21: \<^verbatim>\<open>elbos.append(e)\<close>, on the list that the module-level name
  \<open>elbos\<close> is bound to when the callback runs. It returns nothing, which the caller reads
  as "do not stop".
\<close>

definition callback :: "pyval \<Rightarrow> nat \<Rightarrow> real \<Rightarrow> 'g state \<Rightarrow> error + bool \<times> 'g state" where
  "callback bnn i e s =
     seq (expect as_float_list ''elbos'' s) (\<lambda>es.
     Inr (False, bind_name ''elbos'' (FloatList (es @ [e])) s))"

text \<open>
  Modelled from the spec: \<open>fit\<close> of the library's variational model is not among the
  sources. The notebook describes it: the callback "is invoked after each training
  epoch", it can be used for "some form of early stopping", and it takes "the neural
  network, the epoch, and the average value of the ELBO over the specified epoch". So an
  epoch steps once per batch of the loader and adds up the losses; the callback gets the
  sum over the number of batches; the fit stops early when the callback says so.
\<close>

fun epoch_elbo ::
  "'g library \<Rightarrow> pyval \<Rightarrow> real \<Rightarrow> (real \<times> real) list list \<Rightarrow> real
     \<Rightarrow> (string \<rightharpoonup> real list) \<times> 'g \<Rightarrow> real \<times> (string \<rightharpoonup> real list) \<times> 'g" where
  "epoch_elbo L b lr [] acc sg = (acc, sg)"
| "epoch_elbo L b lr (bt # bts) acc sg =
     (case svi_step L b lr bt sg of (e, sg') \<Rightarrow> epoch_elbo L b lr bts (acc + e) sg')"

fun fit ::
  "'g library \<Rightarrow> (pyval \<Rightarrow> nat \<Rightarrow> real \<Rightarrow> 'g state \<Rightarrow> error + bool \<times> 'g state) \<Rightarrow> pyval \<Rightarrow> real
     \<Rightarrow> (real \<times> real) list list \<Rightarrow> nat \<Rightarrow> nat \<Rightarrow> 'g state \<Rightarrow> error + 'g state" where
  "fit L cb b lr bs i 0 s = Inr s"
| "fit L cb b lr bs i (Suc k) s =
     (case epoch_elbo L b lr bs 0 (param_store s, rng s) of
        (e, st, g) \<Rightarrow>
          (case cb b i (e / real (max 1 (length bs))) (s\<lparr>param_store := st, rng := g\<rparr>) of
             Inl err \<Rightarrow> Inl err
           | Inr (stop, s') \<Rightarrow> if stop then Inr s' else fit L cb b lr bs (Suc i) k s'))"

definition run_cell_21 :: "'g library \<Rightarrow> 'g state \<Rightarrow> error + 'g state" where
  "run_cell_21 L s =
     seq (expect as_import ''pyro'' s) (\<lambda>m.
     let s1 = clear_param_store s;
         s2 = bind_name ''optim'' (PyroAdam 0.001) s1;
         s3 = bind_name ''elbos'' (FloatList []) s2;
         s4 = bind_name ''callback'' (Function ''callback'') s3
     in
     seq (expect as_variational ''bnn'' s4) (\<lambda>b.
     seq (expect as_loader ''loader'' s4) (\<lambda>ld.
     seq (expect as_pyro_optim ''optim'' s4) (\<lambda>lr.
     seq (expect as_function ''callback'' s4) (\<lambda>f.
     fit L callback b lr (batches ld) 0 20000 s4)))))"

definition run_cell_22 :: "'g state \<Rightarrow> error + 'g state" where
  "run_cell_22 s =
     seq (expect as_import ''plt'' s) (\<lambda>m.
     seq (expect as_float_list ''elbos'' s) (\<lambda>es.
     Inr (s\<lparr>display := display s @ [LinePlot es]\<rparr>)))"

definition run_cell_24 :: "'g library \<Rightarrow> 'g state \<Rightarrow> error + 'g state" where
  "run_cell_24 L s =
     seq (expect as_import ''pyro'' s) (\<lambda>m.
     let s1 = clear_param_store s in
     seq (expect as_import ''nn'' s1) (\<lambda>m.
     let r = init_params L [Linear 1 50, Tanh, Linear 50 1] (rng s1);
         s2 = bind_name ''mcmc_net'' (Sequential [Linear 1 50, Tanh, Linear 50 1] (fst r))
                (s1\<lparr>rng := snd r\<rparr>)
     in
     seq (expect as_import ''tyxe'' s2) (\<lambda>m.
     seq (expect as_import ''dist'' s2) (\<lambda>d.
     let s3 = bind_name ''mcmc_prior'' (PriorV (IIDPrior (Normal 0 1))) s2 in
     seq (expect as_tensor ''x'' s3) (\<lambda>x.
     let s4 = bind_name ''mcmc_likelihood''
                (LikelihoodV (HomoskedasticGaussian (length x) 0.1)) s3 in
     seq (expect as_import ''partial'' s4) (\<lambda>p.
     seq (expect as_import ''pyro'' s4) (\<lambda>m.
     let s5 = bind_name ''kernel'' (KernelBuilder (HMC 0.001 50 0.7)) s4 in
     seq (expect as_import ''tyxe'' s5) (\<lambda>m.
     seq (expect as_network ''mcmc_net'' s5) (\<lambda>n.
     seq (expect as_prior ''mcmc_prior'' s5) (\<lambda>p.
     seq (expect as_likelihood ''mcmc_likelihood'' s5) (\<lambda>l.
     seq (expect as_kernel ''kernel'' s5) (\<lambda>k.
     Inr (bind_name ''mcmc_bnn'' (MCMC_BNN (fst n) (snd n) p l k) s5)))))))))))))"

subsection \<open>Running cells in order\<close>

text \<open>A run stops at the first cell that fails.\<close>

fun run_cells :: "('s \<Rightarrow> error + 's) list \<Rightarrow> 's \<Rightarrow> error + 's" where
  "run_cells [] s = Inr s"
| "run_cells (c # cs) s = (case c s of Inl e \<Rightarrow> Inl e | Inr s' \<Rightarrow> run_cells cs s')"

definition cells_to_3 :: "'g library \<Rightarrow> ('g state \<Rightarrow> error + 'g state) list" where
  "cells_to_3 L = [run_cell_0, run_cell_1 L, run_cell_3 L]"

definition cells_to_22 :: "'g library \<Rightarrow> ('g state \<Rightarrow> error + 'g state) list" where
  "cells_to_22 L =
     cells_to_3 L @
     [run_cell_4, run_cell_5, run_cell_8 L, run_cell_9 L, run_cell_12 L, run_cell_14,
      run_cell_16, run_cell_18, run_cell_20, run_cell_21 L, run_cell_22]"

definition cells_to_24 :: "'g library \<Rightarrow> ('g state \<Rightarrow> error + 'g state) list" where
  "cells_to_24 L = cells_to_22 L @ [run_cell_24 L]"

subsection \<open>A concrete interpreter and library\<close>

text \<open>
  An interpreter state before the first cell, and a library whose generator counts up
  from its seed, drawing \<open>0.0, 0.1, ..., 0.9\<close> in turn, and whose steps return fixed
  values: inputs for running the cells on.
\<close>

definition example_state :: "nat state" where
  "example_state =
     \<lparr>sys_path = [], rng = 0, param_store = Map.empty, globals = Map.empty, display = []\<rparr>"

definition example_library :: "nat library" where
  "example_library =
     \<lparr>seed_rng = nat,
      uniform = (\<lambda>g. (real (g mod 10) / 10, Suc g)),
      normal = (\<lambda>g. (0, Suc g)),
      init_params = (\<lambda>ls g. ([], g)),
      forward = (\<lambda>ls w t. t),
      adam_step = (\<lambda>lr f wo. wo),
      svi_step = (\<lambda>b lr bt sg. (1, sg))\<rparr>"

text \<open>Reading a result: the first entry of a tensor variable, and the last figure.\<close>

definition first_entry :: "string \<Rightarrow> 'g state \<Rightarrow> real option" where
  "first_entry n s = (case globals s n of Some (Tensor (v # vs)) \<Rightarrow> Some v | _ \<Rightarrow> None)"




text \<open>
  The losses a fit of \<open>k\<close> epochs hands to its callback, and the parameter store and
  generator it leaves, when no callback stops it.
\<close>

fun elbo_history ::
  "'g library \<Rightarrow> pyval \<Rightarrow> real \<Rightarrow> (real \<times> real) list list \<Rightarrow> nat
     \<Rightarrow> (string \<rightharpoonup> real list) \<times> 'g \<Rightarrow> real list" where
  "elbo_history L b lr bs 0 sg = []"
| "elbo_history L b lr bs (Suc k) sg =
     (case epoch_elbo L b lr bs 0 sg of
        (e, sg') \<Rightarrow> e / real (max 1 (length bs)) # elbo_history L b lr bs k sg')"

fun after_epochs ::
  "'g library \<Rightarrow> pyval \<Rightarrow> real \<Rightarrow> (real \<times> real) list list \<Rightarrow> nat
     \<Rightarrow> (string \<rightharpoonup> real list) \<times> 'g \<Rightarrow> (string \<rightharpoonup> real list) \<times> 'g" where
  "after_epochs L b lr bs 0 sg = sg"
| "after_epochs L b lr bs (Suc k) sg =
     after_epochs L b lr bs k (snd (epoch_elbo L b lr bs 0 sg))"

section \<open>Properties\<close>

lemma notebook_length: "length notebook = 37"
  by (simp add: notebook_def)

subsection \<open>Exceptions leave a program without handlers as they were raised\<close>

lemma traced_op_ok:
  "traced_op f wt = Ok a wt' \<Longrightarrow> clean (snd wt) \<Longrightarrow> clean (snd wt')"
  by (cases wt) (auto simp: clean_def split: res.splits)

lemma traced_op_raised:
  "traced_op f wt = Raised e wt' \<Longrightarrow> clean (snd wt) \<Longrightarrow> propagated (Raised e wt')"
  by (cases wt) (auto simp: clean_def split: res.splits)

lemma traced_op_propagated:
  "clean (snd wt) \<Longrightarrow> propagated (traced_op f wt)"
  by (cases wt) (auto simp: clean_def split: res.splits)

lemma handler_free_Cons:
  "handler_free (s # ss) = (handler_free [s] \<and> handler_free ss)"
  by (simp add: handler_free_def all_stmts_def)

lemma handler_free_For: "handler_free [For t it body] = handler_free body"
  by (simp add: handler_free_def all_stmts_def)
lemma handler_free_While: "handler_free [While c body] = handler_free body"
  by (simp add: handler_free_def all_stmts_def)
lemma handler_free_IfElse: "handler_free [IfElse c a b] = (handler_free a \<and> handler_free b)"
  by (simp add: handler_free_def all_stmts_def)
lemma handler_free_Try: "\<not> handler_free [Try b hs e f]"
  by (simp add: handler_free_def all_stmts_def)
lemma handler_free_With: "\<not> handler_free [With c b]"
  by (simp add: handler_free_def all_stmts_def)

lemmas handler_free_simps =
  handler_free_For handler_free_While handler_free_IfElse handler_free_Try handler_free_With

lemma exec_propagates:
  "handler_free [s] \<Longrightarrow> clean (snd w) \<Longrightarrow> exec (traced R) n s w = Some r \<Longrightarrow> propagated r"
  "handler_free ss \<Longrightarrow> clean (snd w) \<Longrightarrow> exec_block (traced R) n ss w = Some r \<Longrightarrow> propagated r"
  "handler_free body \<Longrightarrow> clean (snd w) \<Longrightarrow> exec_for (traced R) n t body vs w = Some r
     \<Longrightarrow> propagated r"
  "exec_handlers (traced R) n hs e w = Some r \<Longrightarrow> True"
  "exec_finally (traced R) n fin r0 = Some r \<Longrightarrow> True"
proof (induction "traced R" n s w and "traced R" n ss w and "traced R" n t body vs w
    and "traced R" n hs e w and "traced R" n fin r0
    arbitrary: r and r and r and r and r
    rule: exec_exec_block_exec_for_exec_handlers_exec_finally.induct)
  case (1 n m a w)
  then show ?case by (auto simp: traced_def traced_op_propagated)
next
  case (2 n m a w)
  then show ?case by (auto simp: traced_def traced_op_propagated)
next
  case (3 n m w)
  then show ?case by (auto simp: traced_def traced_op_propagated)
next
  case (4 n t e w)
  then show ?case by (auto simp: traced_def traced_op_propagated)
next
  case (5 n e w)
  then show ?case by (auto simp: traced_def traced_op_propagated)
next
  case (6 n f ps body w)
  then show ?case by (auto simp: traced_def traced_op_propagated)
next
  case (7 n e w)
  then show ?case by (auto simp: traced_def clean_def split: prod.splits)
next
  case (8 n t it body w)
  show ?case
  proof (cases "eval_iter (traced R) it w")
    case (Ok vs w')
    then have "clean (snd w')" using 8(3) by (auto simp: traced_def dest: traced_op_ok)
    then show ?thesis using 8 Ok by (auto simp: handler_free_simps)
  next
    case (Raised x w')
    then have "propagated (Raised x w')" using 8(3) by (auto simp: traced_def dest: traced_op_raised)
    then show ?thesis using 8 Raised by auto
  qed
next
  case (9 n c body w)
  show ?case
  proof (cases n)
    case 0
    then show ?thesis using 9(5) by simp
  next
    case (Suc k)
    show ?thesis
    proof (cases "eval_test (traced R) c w")
      case (Raised x w')
      then have "propagated (Raised x w')"
        using 9(4) by (auto simp: traced_def dest: traced_op_raised)
      then show ?thesis using 9(5) Suc Raised by auto
    next
      case (Ok go w')
      note test = this
      then have cw': "clean (snd w')" using 9(4) by (auto simp: traced_def dest: traced_op_ok)
      show ?thesis
      proof (cases go)
        case False
        then show ?thesis using 9(5) Suc Ok cw' by auto
      next
        case True
        have hb: "handler_free body" using 9(3) by (simp add: handler_free_simps)
        show ?thesis
        proof (cases "exec_block (traced R) k body w'")
          case None
          then show ?thesis using 9(5) Suc Ok True by simp
        next
          case (Some rb)
          have prb: "propagated rb" using 9(1)[OF Suc Ok True hb cw' Some] .
          show ?thesis
          proof (cases rb)
            case (Raised x w'')
            then show ?thesis using 9(5) Suc Ok True Some prb by auto
          next
            case (Ok u w'')
            note Ok' = this
            have "clean (snd w'')" using prb Ok' by simp
            then show ?thesis
              using 9(2)[OF Suc test True Some Ok' 9(3)] 9(5) Suc test True Some Ok' by auto
          qed
        qed
      qed
    qed
  qed
next
  case (10 n c a b w)
  show ?case
  proof (cases "eval_test (traced R) c w")
    case (Raised x w')
    then have "propagated (Raised x w')"
      using 10(4) by (auto simp: traced_def dest: traced_op_raised)
    then show ?thesis using 10(5) Raised by auto
  next
    case (Ok go w')
    then have cw': "clean (snd w')" using 10(4) by (auto simp: traced_def dest: traced_op_ok)
    have ha: "handler_free a" and hb: "handler_free b"
      using 10(3) by (simp_all add: handler_free_simps)
    show ?thesis
    proof (cases go)
      case True
      then show ?thesis using 10(1)[OF Ok True ha cw'] 10(5) Ok by auto
    next
      case False
      then show ?thesis using 10(2)[OF Ok False hb cw'] 10(5) Ok by auto
    qed
  qed
next
  case (11 n body hs orelse fin w)
  then show ?case by (simp add: handler_free_simps)
next
  case (12 n c body w)
  then show ?case by (simp add: handler_free_simps)
next
  case (13 n w)
  then show ?case by auto
next
  case (14 n s ss w)
  have hs: "handler_free [s]" and hss: "handler_free ss"
    using 14(3) by (simp_all add: handler_free_def all_stmts_def)
  show ?case
  proof (cases "exec (traced R) n s w")
    case None
    then show ?thesis using 14(5) by simp
  next
    case (Some r1)
    have pr1: "propagated r1" using 14(1)[OF hs 14(4) Some] .
    show ?thesis
    proof (cases r1)
      case (Raised x w')
      then show ?thesis using 14(5) Some pr1 by auto
    next
      case (Ok u w')
      then have "clean (snd w')" using pr1 by simp
      then show ?thesis using 14(2)[OF Some Ok hss] 14(5) Some Ok by auto
    qed
  qed
next
  case (15 n t body w)
  then show ?case by auto
next
  case (16 n t body v vs w)
  show ?case
  proof (cases "bind_var (traced R) t v w")
    case (Raised x w')
    then have "propagated (Raised x w')"
      using 16(4) by (auto simp: traced_def dest: traced_op_raised)
    then show ?thesis using 16(5) Raised by auto
  next
    case (Ok u w')
    note bound = this
    then have cw': "clean (snd w')" using 16(4) by (auto simp: traced_def dest: traced_op_ok)
    show ?thesis
    proof (cases "exec_block (traced R) n body w'")
      case None
      then show ?thesis using 16(5) Ok by simp
    next
      case (Some rb)
      have prb: "propagated rb" using 16(1)[OF Ok 16(3) cw' Some] .
      show ?thesis
      proof (cases rb)
        case (Raised x w'')
        then show ?thesis using 16(5) Ok Some prb by auto
      next
        case (Ok u' w'')
        note Ok' = this
        have "clean (snd w'')" using prb Ok' by simp
        then show ?thesis
          using 16(2)[OF bound Some Ok' 16(3)] 16(5) bound Some Ok' by auto
      qed
    qed
  qed
qed simp_all


lemma while_free_For: "while_free [For t it body] = while_free body"
  by (simp add: while_free_def all_stmts_def)
lemma while_free_While: "\<not> while_free [While c body]"
  by (simp add: while_free_def all_stmts_def)
lemma while_free_IfElse: "while_free [IfElse c a b] = (while_free a \<and> while_free b)"
  by (simp add: while_free_def all_stmts_def)

lemmas while_free_simps = while_free_For while_free_While while_free_IfElse

lemma exec_returns:
  "handler_free [s] \<Longrightarrow> while_free [s] \<Longrightarrow> \<exists>r. exec R n s w = Some r"
  "handler_free ss \<Longrightarrow> while_free ss \<Longrightarrow> \<exists>r. exec_block R n ss w = Some r"
  "handler_free body \<Longrightarrow> while_free body \<Longrightarrow> \<exists>r. exec_for R n t body vs w = Some r"
  "exec_handlers R n hs e w = exec_handlers R n hs e w"
  "exec_finally R n fin r0 = exec_finally R n fin r0"
proof (induction R n s w and R n ss w and R n t body vs w and R n hs e w and R n fin r0
    rule: exec_exec_block_exec_for_exec_handlers_exec_finally.induct)
  case (8 R n t it body w)
  then show ?case
    by (cases "eval_iter R it w") (auto simp: handler_free_simps while_free_simps)
next
  case (9 R n c body w)
  then show ?case by (simp add: while_free_simps)
next
  case (10 R n c a b w)
  then show ?case
    by (cases "eval_test R c w") (auto simp: handler_free_simps while_free_simps)
next
  case (11 R n body hs orelse fin w)
  then show ?case by (simp add: handler_free_simps)
next
  case (12 R n c body w)
  then show ?case by (simp add: handler_free_simps)
next
  case (14 R n s ss w)
  have hs: "handler_free [s]" "handler_free ss" "while_free [s]" "while_free ss"
    using 14(3,4) by (simp_all add: handler_free_def while_free_def all_stmts_def)
  obtain r1 where r1: "exec R n s w = Some r1" using 14(1)[OF hs(1) hs(3)] by blast
  show ?case
  proof (cases r1)
    case (Ok u w')
    then show ?thesis using 14(2)[OF r1 Ok hs(2) hs(4)] r1 by simp
  next
    case (Raised x w')
    then show ?thesis using r1 by simp
  qed
next
  case (16 R n t body v vs w)
  show ?case
  proof (cases "bind_var R t v w")
    case (Raised x w')
    then show ?thesis by simp
  next
    case (Ok u w')
    note bound = this
    obtain rb where rb: "exec_block R n body w' = Some rb"
      using 16(1)[OF bound 16(3) 16(4)] by blast
    show ?thesis
    proof (cases rb)
      case (Ok u' w'')
      then show ?thesis using 16(2)[OF bound rb Ok 16(3) 16(4)] bound rb by simp
    next
      case (Raised x w'')
      then show ?thesis using bound rb by simp
    qed
  qed
qed simp_all

text \<open>Tracing a run does not change it.\<close>

lemma forget_traced_op [simp]: "forget (traced_op f wt) = f (fst wt)"
  by (cases wt) (simp add: forget_def split: res.splits)

lemma traced_op_cases:
  "traced_op f wt = Ok a wt' \<Longrightarrow> f (fst wt) = Ok a (fst wt')"
  "traced_op f wt = Raised e wt' \<Longrightarrow> f (fst wt) = Raised e (fst wt')"
  by (cases wt; auto split: res.splits)+

lemma traced_same_run:
  "map_option forget (exec (traced R) n s w) = exec R n s (fst w)"
  "map_option forget (exec_block (traced R) n ss w) = exec_block R n ss (fst w)"
  "map_option forget (exec_for (traced R) n t body vs w) = exec_for R n t body vs (fst w)"
  "map_option forget (exec_handlers (traced R) n hs e w) = exec_handlers R n hs e (fst w)"
  "map_option forget (exec_finally (traced R) n fin r0) = exec_finally R n fin (forget r0)"
proof (induction "traced R" n s w and "traced R" n ss w and "traced R" n t body vs w
    and "traced R" n hs e w and "traced R" n fin r0
    rule: exec_exec_block_exec_for_exec_handlers_exec_finally.induct)
  case (1 n m a w)
  then show ?case by (simp add: traced_def)
next
  case (2 n m a w)
  then show ?case by (simp add: traced_def)
next
  case (3 n m w)
  then show ?case by (simp add: traced_def)
next
  case (4 n t e w)
  then show ?case by (simp add: traced_def)
next
  case (5 n e w)
  then show ?case by (simp add: traced_def)
next
  case (6 n f ps body w)
  then show ?case by (simp add: traced_def)
next
  case (7 n e w)
  then show ?case by (simp add: traced_def forget_def split: prod.splits)
next
  case (8 n t it body w)
  show ?case
  proof (cases "eval_iter (traced R) it w")
    case (Ok vs w')
    then have "eval_iter R it (fst w) = Ok vs (fst w')"
      by (simp add: traced_def traced_op_cases)
    then show ?thesis using 8[OF Ok] Ok by simp
  next
    case (Raised x w')
    then have "eval_iter R it (fst w) = Raised x (fst w')"
      by (simp add: traced_def traced_op_cases)
    then show ?thesis using Raised by (simp add: forget_def)
  qed
next
  case (9 n c body w)
  show ?case
  proof (cases n)
    case 0
    then show ?thesis by simp
  next
    case (Suc k)
    show ?thesis
    proof (cases "eval_test (traced R) c w")
      case (Raised x w')
      then have "eval_test R c (fst w) = Raised x (fst w')"
        by (simp add: traced_def traced_op_cases)
      then show ?thesis using Suc Raised by (simp add: forget_def)
    next
      case (Ok go w')
      note test = this
      then have t: "eval_test R c (fst w) = Ok go (fst w')"
        by (simp add: traced_def traced_op_cases)
      show ?thesis
      proof (cases go)
        case False
        then show ?thesis using Suc test t by (simp add: forget_def)
      next
        case True
        note b = 9(1)[OF Suc test True, symmetric]
        show ?thesis
        proof (cases "exec_block (traced R) k body w'")
          case None
          then show ?thesis using Suc test t True b by simp
        next
          case (Some rb)
          show ?thesis
          proof (cases rb)
            case (Raised x w'')
            then show ?thesis using Suc test t True b Some
              by (auto simp: forget_def)
          next
            case (Ok u w'')
            then show ?thesis using Suc test t True b Some 9(2)[OF Suc test True Some Ok, symmetric]
              by (auto simp: forget_def)
          qed
        qed
      qed
    qed
  qed
next
  case (10 n c a b w)
  show ?case
  proof (cases "eval_test (traced R) c w")
    case (Raised x w')
    then have "eval_test R c (fst w) = Raised x (fst w')"
      by (simp add: traced_def traced_op_cases)
    then show ?thesis using Raised by (simp add: forget_def)
  next
    case (Ok go w')
    then have t: "eval_test R c (fst w) = Ok go (fst w')"
      by (simp add: traced_def traced_op_cases)
    show ?thesis using 10(1)[OF Ok, symmetric] 10(2)[OF Ok, symmetric] Ok t by (cases go) simp_all
  qed
next
  case (11 n body hs orelse fin w)
  note b = 11(1)[symmetric]
  show ?case
  proof (cases "exec_block (traced R) n body w")
    case None
    then show ?thesis using b by simp
  next
    case (Some rb)
    note body = this
    show ?thesis
    proof (cases rb)
      case (Ok u w1)
      note ok = this
      note e = 11(2)[OF body ok, symmetric]
      show ?thesis
      proof (cases "exec_block (traced R) n orelse w1")
        case None
        then show ?thesis using b body ok e by (auto simp: forget_def)
      next
        case (Some r)
        then show ?thesis using b body ok e 11(3)[OF body ok Some, symmetric]
          by (auto simp: forget_def)
      qed
    next
      case (Raised x w1)
      note raised = this
      note h = 11(4)[OF body raised, symmetric]
      show ?thesis
      proof (cases "exec_handlers (traced R) n hs x w1")
        case None
        then show ?thesis using b body raised h by (auto simp: forget_def)
      next
        case (Some r)
        then show ?thesis using b body raised h 11(5)[OF body raised Some, symmetric]
          by (auto simp: forget_def)
      qed
    qed
  qed
next
  case (12 n c body w)
  show ?case
  proof (cases "enter_ctx (traced R) c w")
    case (Raised x w')
    then have "enter_ctx R c (fst w) = Raised x (fst w')"
      by (simp add: traced_def traced_op_cases)
    then show ?thesis using Raised by (simp add: forget_def)
  next
    case (Ok u w')
    then have en: "enter_ctx R c (fst w) = Ok u (fst w')"
      by (simp add: traced_def traced_op_cases)
    note b = 12[OF Ok, symmetric]
    have ex: "forget (exit_ctx (traced R) c x w'') = exit_ctx R c x (fst w'')" for x w''
      by (simp add: traced_def)
    show ?thesis
    proof (cases "exec_block (traced R) n body w'")
      case None
      then show ?thesis using Ok en b by simp
    next
      case (Some rb)
      show ?thesis
      proof (cases rb)
        case (Ok u' w'')
        then show ?thesis using \<open>enter_ctx (traced R) c w = Ok u w'\<close> en b Some ex[of None w'', symmetric]
          by (cases "exit_ctx (traced R) c None w''") (auto simp: forget_def)
      next
        case (Raised x w'')
        then show ?thesis using Ok en b Some ex[of "Some x" w'', symmetric]
          by (cases "exit_ctx (traced R) c (Some x) w''") (auto simp: forget_def)
      qed
    qed
  qed
next
  case (13 n w)
  then show ?case by (simp add: forget_def)
next
  case (14 n s ss w)
  show ?case
  proof (cases "exec (traced R) n s w")
    case None
    then show ?thesis using 14(1)[symmetric] by simp
  next
    case (Some r1)
    show ?thesis
    proof (cases r1)
      case (Raised x w')
      then show ?thesis using 14(1)[symmetric] Some by (auto simp: forget_def)
    next
      case (Ok u w')
      then show ?thesis using 14(1)[symmetric] Some 14(2)[OF Some Ok, symmetric] by (auto simp: forget_def)
    qed
  qed
next
  case (15 n t body w)
  then show ?case by (simp add: forget_def)
next
  case (16 n t body v vs w)
  show ?case
  proof (cases "bind_var (traced R) t v w")
    case (Raised x w')
    then have "bind_var R t v (fst w) = Raised x (fst w')"
      by (simp add: traced_def traced_op_cases)
    then show ?thesis using Raised by (simp add: forget_def)
  next
    case (Ok u w')
    note bound = this
    then have bv: "bind_var R t v (fst w) = Ok u (fst w')"
      by (simp add: traced_def traced_op_cases)
    note b = 16(1)[OF bound, symmetric]
    show ?thesis
    proof (cases "exec_block (traced R) n body w'")
      case None
      then show ?thesis using bound bv b by simp
    next
      case (Some rb)
      show ?thesis
      proof (cases rb)
        case (Raised x w'')
        then show ?thesis using bound bv b Some by (auto simp: forget_def)
      next
        case (Ok u' w'')
        then show ?thesis using bound bv b Some 16(2)[OF bound Some Ok, symmetric]
          by (auto simp: forget_def)
      qed
    qed
  qed
next
  case (17 n e w)
  then show ?case by (simp add: forget_def)
next
  case (18 n h hs e w)
  then show ?case by (simp add: traced_def)
next
  case (19 n fin u w)
  then show ?case by (simp add: forget_def)
next
  case (20 n fin e w)
  show ?case
  proof (cases "exec_block (traced R) n fin w")
    case None
    then show ?thesis using 20[symmetric] by (simp add: forget_def)
  next
    case (Some r)
    then show ?thesis using 20[symmetric] by (cases r) (auto simp: forget_def)
  qed
qed

lemma notebook_handler_free: "handler_free (program notebook)"
  by code_simp

lemma notebook_while_free: "while_free (program notebook)"
  by code_simp

text \<open>
  A handler does break it: here the only operation of the run raises, and the run still
  ends normally.
\<close>

lemma try_recovers:
  "exec_block (traced \<lparr>run_simple = \<lambda>s w. Raised (Exception ''RuntimeError'') w,
       eval_iter = \<lambda>e w. Ok ([]::unit list) w, bind_var = \<lambda>t v w. Ok () w,
       eval_test = \<lambda>e w. Ok True w, eval_raise = \<lambda>e w. (Exception ''RuntimeError'', w),
       handles = \<lambda>t e. True, enter_ctx = \<lambda>e w. Ok () w, exit_ctx = \<lambda>e x w. Ok False w\<rparr>)
     0 [Try [ExprStmt (Name ''boom'')] [(None, [])] [] []] ((), [])
   = Some (Ok () ((), [Threw (Exception ''RuntimeError'')]))"
  by (simp add: traced_def)

text \<open>
  A run of the notebook in which \<open>bnn.fit\<close> raises: the 40 simple statements before it
  have run, the exception is the outcome, and nothing has run after it.
\<close>

lemma fit_failure_example:
  "exec_block (traced failing_fit) 0 (program notebook) (0, [])
     = Some (Raised (Exception ''RuntimeError'')
         (40, replicate 42 Returned @ [Threw (Exception ''RuntimeError'')]))"
  by code_simp

text \<open>
  C2. The notebook performs no error handling. No cell holds a \<open>try\<close> or a \<open>with\<close>
  statement, at any depth; and whatever the interpreter and the libraries do, a
  top-to-bottom run of the notebook ends, and its outcome reports an exception as it was
  raised: either no operation raised, or the last operation of the run raised and the run
  ends with that exception, no statement of the notebook having run after it. The traced
  run is the run itself, with the trace added.
\<close>

theorem notebook_exceptions_propagate:
  "handler_free (program notebook) \<and>
   (\<exists>r. exec_block (traced R) n (program notebook) (w, []) = Some r \<and> propagated r \<and>
      exec_block R n (program notebook) w = Some (forget r))"
proof -
  obtain r where r: "exec_block (traced R) n (program notebook) (w, []) = Some r"
    using exec_returns(2)[OF notebook_handler_free notebook_while_free, of "traced R" n "(w, [])"]
    by auto
  have "propagated r"
    using exec_propagates(2)[OF notebook_handler_free _ r] by (simp add: clean_def)
  moreover have "exec_block R n (program notebook) w = Some (forget r)"
    using traced_same_run(2)[of R n "program notebook" "(w, [])"] r by simp
  ultimately show ?thesis using r notebook_handler_free by blast
qed

subsection \<open>Control flow\<close>

text \<open>
  C1, as stated, fails: not every step of the notebook is a direct call without control
  flow. The third statement of cell 8, the baseline fit, is a loop written in the
  notebook.
\<close>

theorem direct_calls_only_counterexample:
  "\<not> direct_calls_only notebook \<and> cell_8 ! 2 = training_loop \<and> \<not> simple_stmt training_loop"
  by code_simp

text \<open>
  C1, amended. The statements of the notebook are imports, assignments and expression
  statements, except for four \<open>for\<close> loops and one function definition: the training
  loop of cell 8, which runs 10000 times over \<open>optim.zero_grad()\<close>, the squared-error
  objective \<open>net(x).sub(y).pow(2).mean()\<close> with \<open>.backward()\<close>, and \<open>optim.step()\<close>;
  the plotting loops of cells 28, 30 and 32; and the callback of cell 21. There is no
  \<open>while\<close>, no conditional, no \<open>try\<close>, \<open>with\<close> or \<open>raise\<close>: no retry logic and no state
  machine. The loops run over \<open>range(10000)\<close>, \<open>range(1, 4)\<close> and the sampled
  predictions.
\<close>

theorem notebook_control_flow:
  "filter (\<lambda>s. \<not> simple_stmt s) (all_stmts (program notebook)) =
     [training_loop, callback_def_stmt, band_loop, band_loop, sample_loop] \<and>
   cells_where is_for notebook = [8, 28, 30, 32] \<and>
   cells_where is_funcdef notebook = [21] \<and>
   cells_where (\<lambda>s. is_while s \<or> is_branch s \<or> is_handler s \<or> is_raise s) notebook = [] \<and>
   map stmt_exprs (filter is_for (all_stmts (program notebook))) =
     [[Name ''_'', Call (Name ''range'') [IntLit 10000] []],
      [Name ''c'', Call (Name ''range'') [IntLit 1, IntLit 4] []],
      [Name ''c'', Call (Name ''range'') [IntLit 1, IntLit 4] []],
      [Name ''yhat'', Name ''sampled_predictions'']] \<and>
   callees [training_loop] =
     [[''range''],
      [''optim'', ''zero_grad''],
      [''net()'', ''sub()'', ''pow()'', ''mean()'', ''backward''],
      [''net()'', ''sub()'', ''pow()'', ''mean''],
      [''net()'', ''sub()'', ''pow''],
      [''net()'', ''sub''],
      [''net''],
      [''optim'', ''step'']]"
  by code_simp

subsection \<open>The order of the stages\<close>

text \<open>
  C3, as stated, fails: the stages are not run strictly one after the other, with or
  without the plots counted. The model for MCMC is assembled in cell 24, after the
  variational fit of cell 21, and the evaluation of cell 35 comes after the plots of
  cell 28.
\<close>

theorem stage_order_counterexample:
  "\<not> stages_in_order notebook \<and>
   \<not> sorted (map stage_rank (filter (\<lambda>st. st \<noteq> Visualization) (stage_sequence notebook))) \<and>
   cell_stages (notebook ! 21) = [Inference] \<and>
   cell_stages (notebook ! 24) = [NetworkDefinition, ModelAssembly] \<and>
   cell_stages (notebook ! 28) = [Visualization] \<and>
   cell_stages (notebook ! 35) = [Prediction]"
  by code_simp

text \<open>
  C3, amended. The stages begin in the order the specification gives: data in cell 3,
  the baseline fit in cell 8, the Bayesian model from cell 12 (network) and cell 14
  (prior) on, inference in cell 21, prediction in cell 27. They are interleaved: plots
  follow each stage (cells 5, 9, 22, 28, 30, 32), the second model is assembled in
  cell 24 between the two fits of cells 21 and 25, and the evaluation of cell 35 is the
  last code cell.
\<close>

theorem notebook_stage_table:
  "stage_table notebook =
     [(3, [DataSynthesis]), (4, [DataSynthesis]), (5, [Visualization]),
      (8, [NetworkDefinition, BaselineFit]), (9, [Visualization]),
      (12, [NetworkDefinition]), (14, [ModelAssembly]), (16, [ModelAssembly]),
      (18, [ModelAssembly]), (20, [ModelAssembly]), (21, [Inference]),
      (22, [Visualization]), (24, [NetworkDefinition, ModelAssembly]),
      (25, [Inference]), (27, [Prediction]), (28, [Visualization]),
      (29, [Prediction]), (30, [Visualization]),
      (32, [Prediction, Visualization]), (35, [Prediction])] \<and>
   first_cell DataSynthesis notebook = Some 3 \<and>
   first_cell BaselineFit notebook = Some 8 \<and>
   first_cell NetworkDefinition notebook = Some 8 \<and>
   first_cell ModelAssembly notebook = Some 14 \<and>
   first_cell Inference notebook = Some 21 \<and>
   first_cell Prediction notebook = Some 27 \<and>
   first_cell Visualization notebook = Some 5"
  by code_simp

subsection \<open>What the notebook touches\<close>


section \<open>Properties of the cells as state transformers\<close>

lemma length_draws [simp]: "length (fst (draws f n g)) = n"
proof (induction n arbitrary: g)
  case 0
  then show ?case by simp
next
  case (Suc n)
  obtain v g' where fg: "f g = (v, g')" by (cases "f g")
  obtain vs g'' where d: "draws f n g' = (vs, g'')" by (cases "draws f n g'")
  have "length vs = n" using Suc[of g'] d by simp
  then show ?case using fg d by simp
qed

lemma draws_Nil [simp]: "(fst (draws f n g) = []) = (n = 0)"
  using length_draws[of f n g] by (metis length_0_conv)

lemma length_mul_add_cos [simp]: "length (mul_add_cos t) = length t"
  by (simp add: mul_add_cos_def)

lemma length_elbo_history [simp]: "length (elbo_history L b lr bs k sg) = k"
  by (induction k arbitrary: sg) (auto split: prod.splits)

lemma fit_callback:
  "globals s ''elbos'' = Some (FloatList es) \<Longrightarrow>
   fit L callback b lr bs i k s =
     Inr (s\<lparr>param_store := fst (after_epochs L b lr bs k (param_store s, rng s)),
            rng := snd (after_epochs L b lr bs k (param_store s, rng s)),
            globals := (globals s)(''elbos'' \<mapsto>
              FloatList (es @ elbo_history L b lr bs k (param_store s, rng s)))\<rparr>)"
proof (induction k arbitrary: s es i)
  case 0
  then show ?case by (simp add: fun_upd_idem)
next
  case (Suc k)
  obtain e st g where ep: "epoch_elbo L b lr bs 0 (param_store s, rng s) = (e, st, g)"
    by (metis prod_cases3)
  let ?s1 = "s\<lparr>param_store := st, rng := g\<rparr>"
  let ?a = "e / real (max 1 (length bs))"
  have cb: "callback b i ?a ?s1 = Inr (False, bind_name ''elbos'' (FloatList (es @ [?a])) ?s1)"
    using Suc.prems by (simp add: callback_def expect_def seq_def)
  have g2: "globals (bind_name ''elbos'' (FloatList (es @ [?a])) ?s1) ''elbos''
              = Some (FloatList (es @ [?a]))"
    by (simp add: bind_name_def)
  have step: "fit L callback b lr bs i (Suc k) s
      = fit L callback b lr bs (Suc i) k (bind_name ''elbos'' (FloatList (es @ [?a])) ?s1)"
    using ep cb by simp
  have hist: "elbo_history L b lr bs (Suc k) (param_store s, rng s)
      = ?a # elbo_history L b lr bs k (st, g)"
    using ep by simp
  have aft: "after_epochs L b lr bs (Suc k) (param_store s, rng s) = after_epochs L b lr bs k (st, g)"
    using ep by simp
  show ?case
    unfolding step Suc.IH[OF g2, of "Suc i"] hist aft
    by (simp add: bind_name_def fun_upd_def cong: if_cong)
qed

lemmas run_defs =
  cells_to_3_def cells_to_22_def cells_to_24_def run_cell_0_def run_cell_1_def run_cell_3_def run_cell_4_def
  run_cell_5_def run_cell_8_def run_cell_9_def
  run_cell_12_def run_cell_14_def run_cell_16_def run_cell_18_def run_cell_20_def
  run_cell_21_def run_cell_22_def run_cell_24_def clear_param_store_def
  seq_def expect_def bind_name_def Let_def

lemma run_cells_append:
  "run_cells (cs @ ds) s = (case run_cells cs s of Inl e \<Rightarrow> Inl e | Inr s' \<Rightarrow> run_cells ds s')"
  by (induction cs arbitrary: s) (auto split: sum.splits)





lemma run_to_22:
  "\<exists>s' xs ys w es. run_cells (cells_to_22 L) s = Inr s' \<and>
     globals s' ''pyro'' = Some (Imported ''pyro'') \<and>
     globals s' ''nn'' = Some (Imported ''torch.nn'') \<and>
     globals s' ''tyxe'' = Some (Imported ''tyxe'') \<and>
     globals s' ''dist'' = Some (Imported ''pyro.distributions'') \<and>
     globals s' ''partial'' = Some (Imported ''functools.partial'') \<and>
     globals s' ''x'' = Some (Tensor xs) \<and> length xs = 100 \<and>
     globals s' ''y'' = Some (Tensor ys) \<and> length ys = 100 \<and>
     globals s' ''dataset'' = Some (TensorDataset (zip xs ys)) \<and>
     globals s' ''loader'' = Some (DataLoader (zip xs ys) 100) \<and>
     globals s' ''obs_model'' = Some (LikelihoodV (HomoskedasticGaussian 100 0.1)) \<and>
     globals s' ''bnn'' =
       Some (VariationalBNN [Linear 1 50, Tanh, Linear 50 1] w (IIDPrior (Normal 0 1))
               (HomoskedasticGaussian 100 0.1) (AutoNormal 0.01)) \<and>
     globals s' ''elbos'' = Some (FloatList es) \<and> length es = 20000 \<and>
     display s' \<noteq> [] \<and> last (display s') = LinePlot es"
  by (simp add: run_defs fit_callback)


lemma run_cell_24_result:
  assumes "globals s ''pyro'' = Some (Imported a)" "globals s ''nn'' = Some (Imported b)"
    "globals s ''tyxe'' = Some (Imported c)" "globals s ''dist'' = Some (Imported d)"
    "globals s ''partial'' = Some (Imported e)" "globals s ''x'' = Some (Tensor xs)"
  shows "\<exists>s' w'. run_cell_24 L s = Inr s' \<and>
     param_store s' = Map.empty \<and> sys_path s' = sys_path s \<and> display s' = display s \<and>
     globals s' ''mcmc_likelihood'' = Some (LikelihoodV (HomoskedasticGaussian (length xs) 0.1)) \<and>
     globals s' ''mcmc_bnn'' =
       Some (MCMC_BNN [Linear 1 50, Tanh, Linear 50 1] w' (IIDPrior (Normal 0 1))
               (HomoskedasticGaussian (length xs) 0.1) (HMC 0.001 50 0.7)) \<and>
     globals s' ''x'' = globals s ''x'' \<and>
     globals s' ''loader'' = globals s ''loader'' \<and>
     globals s' ''obs_model'' = globals s ''obs_model'' \<and>
     globals s' ''bnn'' = globals s ''bnn'' \<and>
     globals s' ''elbos'' = globals s ''elbos''"
  using assms by (simp add: run_defs)

lemma run_to_24:
  "\<exists>s' xs ys w w' es. run_cells (cells_to_24 L) s = Inr s' \<and>
     param_store s' = Map.empty \<and>
     globals s' ''x'' = Some (Tensor xs) \<and> length xs = 100 \<and> length ys = 100 \<and>
     globals s' ''loader'' = Some (DataLoader (zip xs ys) 100) \<and>
     globals s' ''obs_model'' = Some (LikelihoodV (HomoskedasticGaussian 100 0.1)) \<and>
     globals s' ''mcmc_likelihood'' = Some (LikelihoodV (HomoskedasticGaussian 100 0.1)) \<and>
     globals s' ''bnn'' =
       Some (VariationalBNN [Linear 1 50, Tanh, Linear 50 1] w (IIDPrior (Normal 0 1))
               (HomoskedasticGaussian 100 0.1) (AutoNormal 0.01)) \<and>
     globals s' ''mcmc_bnn'' =
       Some (MCMC_BNN [Linear 1 50, Tanh, Linear 50 1] w' (IIDPrior (Normal 0 1))
               (HomoskedasticGaussian 100 0.1) (HMC 0.001 50 0.7)) \<and>
     globals s' ''elbos'' = Some (FloatList es) \<and> length es = 20000 \<and>
     last (display s') = LinePlot es"
proof -
  obtain s22 xs ys w es where r22: "run_cells (cells_to_22 L) s = Inr s22"
    and imp: "globals s22 ''pyro'' = Some (Imported ''pyro'')"
      "globals s22 ''nn'' = Some (Imported ''torch.nn'')"
      "globals s22 ''tyxe'' = Some (Imported ''tyxe'')"
      "globals s22 ''dist'' = Some (Imported ''pyro.distributions'')"
      "globals s22 ''partial'' = Some (Imported ''functools.partial'')"
    and x: "globals s22 ''x'' = Some (Tensor xs)" "length xs = 100" "length ys = 100"
    and rest: "globals s22 ''loader'' = Some (DataLoader (zip xs ys) 100)"
      "globals s22 ''obs_model'' = Some (LikelihoodV (HomoskedasticGaussian 100 0.1))"
      "globals s22 ''bnn'' =
         Some (VariationalBNN [Linear 1 50, Tanh, Linear 50 1] w (IIDPrior (Normal 0 1))
                 (HomoskedasticGaussian 100 0.1) (AutoNormal 0.01))"
      "globals s22 ''elbos'' = Some (FloatList es)" "length es = 20000"
      "last (display s22) = LinePlot es"
    using run_to_22[of L s] by blast
  obtain s24 w' where r24: "run_cell_24 L s22 = Inr s24"
    and after: "param_store s24 = Map.empty" "display s24 = display s22"
      "globals s24 ''mcmc_likelihood'' = Some (LikelihoodV (HomoskedasticGaussian (length xs) 0.1))"
      "globals s24 ''mcmc_bnn'' =
         Some (MCMC_BNN [Linear 1 50, Tanh, Linear 50 1] w' (IIDPrior (Normal 0 1))
                 (HomoskedasticGaussian (length xs) 0.1) (HMC 0.001 50 0.7))"
      "globals s24 ''x'' = globals s22 ''x''"
      "globals s24 ''loader'' = globals s22 ''loader''"
      "globals s24 ''obs_model'' = globals s22 ''obs_model''"
      "globals s24 ''bnn'' = globals s22 ''bnn''"
      "globals s24 ''elbos'' = globals s22 ''elbos''"
    using run_cell_24_result[OF imp x(1), of L] by blast
  have "run_cells (cells_to_24 L) s = Inr s24"
    using r22 r24 by (simp add: cells_to_24_def run_cells_append)
  then show ?thesis using after x rest by auto
qed

lemma draws_first:
  "fst (draws f (Suc n) g) = fst (f g) # fst (draws f n (snd (f g)))"
  by (simp split: prod.splits)

lemma first_draw_of_50: "fst (draws f 50 g) = fst (f g) # fst (draws f 49 (snd (f g)))"
  using draws_first[of f 49 g] by simp

subsection \<open>The two models\<close>

text \<open>
  C7. The model fitted by variational inference and the model fitted by MCMC are built
  from the same parts. Whatever the libraries compute and whatever state the run starts
  in, after cell 24 \<open>bnn\<close> and \<open>mcmc_bnn\<close> hold networks of the same architecture,
  Linear(1, 50), Tanh, Linear(50, 1) (their weights are initialised separately), the same
  prior, IID Normal(0, 1), and the same likelihood, a homoskedastic Gaussian with
  \<open>dataset_size = len(x) = 100\<close> and scale 0.1. In the program text the three parts of
  cell 24 are the very expressions of cells 12, 14 and 16.
\<close>

theorem same_model_components:
  "\<exists>s' xs w w'. run_cells (cells_to_24 L) s = Inr s' \<and>
     globals s' ''x'' = Some (Tensor xs) \<and> length xs = 100 \<and>
     globals s' ''bnn'' =
       Some (VariationalBNN [Linear 1 50, Tanh, Linear 50 1] w (IIDPrior (Normal 0 1))
               (HomoskedasticGaussian (length xs) 0.1) (AutoNormal 0.01)) \<and>
     globals s' ''mcmc_bnn'' =
       Some (MCMC_BNN [Linear 1 50, Tanh, Linear 50 1] w' (IIDPrior (Normal 0 1))
               (HomoskedasticGaussian (length xs) 0.1) (HMC 0.001 50 0.7)) \<and>
     assigned ''mcmc_net'' cell_24 = assigned ''net'' cell_12 \<and>
     assigned ''mcmc_prior'' cell_24 = assigned ''prior'' cell_14 \<and>
     assigned ''mcmc_likelihood'' cell_24 = assigned ''obs_model'' cell_16 \<and>
     arguments_to [''VariationalBNN''] (program notebook) =
       [Name ''net'', Name ''prior'', Name ''obs_model'', Name ''guide_builder''] \<and>
     arguments_to [''MCMC_BNN''] (program notebook) =
       [Name ''mcmc_net'', Name ''mcmc_prior'', Name ''mcmc_likelihood'', Name ''kernel'']"
proof -
  have ast: "assigned ''mcmc_net'' cell_24 = assigned ''net'' cell_12 \<and>
     assigned ''mcmc_prior'' cell_24 = assigned ''prior'' cell_14 \<and>
     assigned ''mcmc_likelihood'' cell_24 = assigned ''obs_model'' cell_16 \<and>
     arguments_to [''VariationalBNN''] (program notebook) =
       [Name ''net'', Name ''prior'', Name ''obs_model'', Name ''guide_builder''] \<and>
     arguments_to [''MCMC_BNN''] (program notebook) =
       [Name ''mcmc_net'', Name ''mcmc_prior'', Name ''mcmc_likelihood'', Name ''kernel'']"
    by code_simp
  show ?thesis using run_to_24[of L s] ast by fastforce
qed

subsection \<open>Batches\<close>


subsection \<open>Where the data lie\<close>



subsection \<open>Global state\<close>

text \<open>
  C4, as stated, fails: cells of the notebook do write global state that later cells
  read. On the example interpreter and library, cell 0 changes the import path from
  \<open>[]\<close> to \<open>[..]\<close>; cell 1 changes the state of the global generator from 0 to 42; and
  the first training input that cell 3 draws is -0.94 after the seeding of cell 1, and
  -1 without it.
\<close>

theorem global_state_counterexample:
  "sys_path example_state = [] \<and>
   map_sum id sys_path (run_cell_0 example_state) = Inr [''..''] \<and>
   rng example_state = 0 \<and>
   map_sum id rng (run_cells [run_cell_0, run_cell_1 example_library] example_state) = Inr 42 \<and>
   map_sum id (first_entry ''x1'') (run_cells (cells_to_3 example_library) example_state)
     = Inr (Some (- 0.94)) \<and>
   map_sum id (first_entry ''x1'')
       (run_cell_3 example_library (bind_name ''torch'' (Imported ''torch'') example_state))
     = Inr (Some (- 1))"
  by (simp add: run_defs example_state_def example_library_def first_entry_def first_draw_of_50)

text \<open>
  C4, amended. The notebook writes global state in these places: cell 0 appends \<open>..\<close> to
  the interpreter's import path; cell 1 sets the state of the framework's global
  generator from the seed 42, and cell 3 draws the training inputs from that state;
  cells 21 and 24 clear the framework's global parameter store; and cell 21 binds the
  module-level name \<open>elbos\<close> to a list, which is the one name the callback uses that is
  not its own, and which cells 21 and 22 use.
\<close>

theorem global_state_writes:
  "\<exists>s0 s1 s3. run_cell_0 s = Inr s0 \<and> sys_path s0 = sys_path s @ [''..''] \<and>
     run_cell_1 L s0 = Inr s1 \<and> rng s1 = seed_rng L 42 \<and>
     run_cell_3 L s1 = Inr s3 \<and>
     globals s3 ''x1'' =
       Some (Tensor (map (\<lambda>u. u * 0.3 - 1) (fst (draws (uniform L) 50 (rng s1))))) \<and>
     param_store (clear_param_store s) = Map.empty \<and>
     cells_where (\<lambda>st. st = clear_store_stmt) notebook = [21, 24] \<and>
     assigned ''elbos'' (program notebook) = [ListE []] \<and>
     free_names [callback_def_stmt] = [''elbos''] \<and>
     cells_where (\<lambda>st. List.member (names_used [st]) ''elbos'') notebook = [21, 22]"
proof -
  have ast: "cells_where (\<lambda>st. st = clear_store_stmt) notebook = [21, 24] \<and>
     assigned ''elbos'' (program notebook) = [ListE []] \<and>
     free_names [callback_def_stmt] = [''elbos''] \<and>
     cells_where (\<lambda>st. List.member (names_used [st]) ''elbos'') notebook = [21, 22]"
    by code_simp
  have "\<exists>s0 s1 s3. run_cell_0 s = Inr s0 \<and> sys_path s0 = sys_path s @ [''..''] \<and>
     run_cell_1 L s0 = Inr s1 \<and> rng s1 = seed_rng L 42 \<and>
     run_cell_3 L s1 = Inr s3 \<and>
     globals s3 ''x1'' =
       Some (Tensor (map (\<lambda>u. u * 0.3 - 1) (fst (draws (uniform L) 50 (rng s1))))) \<and>
     param_store (clear_param_store s) = Map.empty"
    by (simp add: run_defs)
  then show ?thesis using ast by blast
qed

subsection \<open>The callback and the list it fills\<close>



end
